theory Spec2Isabelle
  imports Complex_Main
begin

section \<open>Issue model\<close>

text \<open>
  The automated code reviewer of the repository, \<^verbatim>\<open>scripts/code_review.py\<close>, as a
  shallow embedding. Python objects that the code mutates (\<^verbatim>\<open>ReviewResult\<close>, the
  reviewer itself) are records passed through every function; everything the code asks
  of the outside (files, parsers, subprocesses) is answered by a record \<open>world\<close>;
  an exception that leaves a function is the \<open>Inl\<close> of its result.

  A Python \<^verbatim>\<open>str\<close> is a \<open>string\<close>: each \<open>char\<close> stands for the code point of
  the same number, so the model covers text whose code points are below 256.
\<close>

datatype Severity = BLOCKING | WARNING | NITPICK

datatype Category = SECURITY | QUALITY | TESTING | DOCUMENTATION | ASYNC | PATTERN

record Issue =
  severity :: Severity
  category :: Category
  issue_file :: string
  line :: "int option"
  title :: string
  description :: string
  suggestion :: "string option"
  code_example :: "string option"
  reference :: "string option"

text \<open>
  \<^verbatim>\<open>Issue(severity=..., category=..., file=..., line=..., title=..., description=...)\<close>
  with the three optional fields at their default \<^verbatim>\<open>None\<close>.
\<close>

definition mk_issue :: "Severity \<Rightarrow> Category \<Rightarrow> string \<Rightarrow> int option \<Rightarrow> string \<Rightarrow> string \<Rightarrow> Issue" where
  "mk_issue sev cat f lno t d =
     \<lparr>severity = sev, category = cat, issue_file = f, line = lno, title = t, description = d,
      suggestion = None, code_example = None, reference = None\<rparr>"

subsection \<open>Python floats, as far as the code compares them\<close>

text \<open>
  \<^verbatim>\<open>coverage_percent: float\<close>. A Python float is a finite number, an infinity or NaN.
  The code only compares a float with the constants 60 and 80, so a finite float is
  modelled by the real number it denotes (every finite double is one, and the order is
  the same); every comparison with NaN is false.
\<close>

datatype pyfloat = Finite real | PosInf | NegInf | NaN

fun float_lt :: "pyfloat \<Rightarrow> real \<Rightarrow> bool" where
  "float_lt (Finite x) c = (x < c)"
| "float_lt NegInf c = True"
| "float_lt PosInf c = False"
| "float_lt NaN c = False"

fun float_ge :: "pyfloat \<Rightarrow> real \<Rightarrow> bool" where
  "float_ge (Finite x) c = (x \<ge> c)"
| "float_ge PosInf c = True"
| "float_ge NegInf c = False"
| "float_ge NaN c = False"

subsection \<open>ReviewResult\<close>

record ReviewResult =
  blocking :: "Issue list"
  warnings :: "Issue list"
  nitpicks :: "Issue list"
  positives :: "string list"
  coverage_percent :: pyfloat
  quality_tier :: string
  files_reviewed :: nat

text \<open>\<^verbatim>\<open>ReviewResult()\<close>: the dataclass defaults.\<close>

definition new_ReviewResult :: ReviewResult where
  "new_ReviewResult =
     \<lparr>blocking = [], warnings = [], nitpicks = [], positives = [],
      coverage_percent = Finite 0, quality_tier = ''Unknown'', files_reviewed = 0\<rparr>"

definition add_issue :: "Issue \<Rightarrow> ReviewResult \<Rightarrow> ReviewResult" where
  "add_issue issue r =
     (if severity issue = BLOCKING then r\<lparr>blocking := blocking r @ [issue]\<rparr>
      else if severity issue = WARNING then r\<lparr>warnings := warnings r @ [issue]\<rparr>
      else r\<lparr>nitpicks := nitpicks r @ [issue]\<rparr>)"

definition has_blocking_issues :: "ReviewResult \<Rightarrow> bool" where
  "has_blocking_issues r = (length (blocking r) > 0)"

definition total_issues :: "ReviewResult \<Rightarrow> nat" where
  "total_issues r = length (blocking r) + length (warnings r) + length (nitpicks r)"

text \<open>A sequence of \<^verbatim>\<open>add_issue\<close> calls, in the order of the list.\<close>

fun add_issues :: "Issue list \<Rightarrow> ReviewResult \<Rightarrow> ReviewResult" where
  "add_issues [] r = r"
| "add_issues (i # iss) r = add_issues iss (add_issue i r)"

section \<open>Python strings\<close>

definition lower_char :: "char \<Rightarrow> char" where
  "lower_char c =
     (let n = (of_char c :: nat)
      in if (65 \<le> n \<and> n \<le> 90) \<or> (192 \<le> n \<and> n \<le> 222 \<and> n \<noteq> 215)
         then char_of (n + 32) else c)"

text \<open>\<^verbatim>\<open>s.lower()\<close>\<close>

definition lower :: "string \<Rightarrow> string" where
  "lower s = map lower_char s"

text \<open>
  \<^verbatim>\<open>str.isspace\<close> and the class \<^verbatim>\<open>\s\<close> of \<^verbatim>\<open>re\<close> on a \<^verbatim>\<open>str\<close> pattern: the code
  points 9 to 13, 28 to 32, 133 and 160.
\<close>

definition is_space :: "char \<Rightarrow> bool" where
  "is_space c =
     (let n = (of_char c :: nat)
      in (9 \<le> n \<and> n \<le> 13) \<or> (28 \<le> n \<and> n \<le> 32) \<or> n = 133 \<or> n = 160)"

text \<open>
  The class \<^verbatim>\<open>\w\<close> of \<^verbatim>\<open>re\<close> on a \<^verbatim>\<open>str\<close> pattern (alphanumeric or underscore),
  below code point 256.
\<close>

definition is_word :: "char \<Rightarrow> bool" where
  "is_word c =
     (let n = (of_char c :: nat)
      in (48 \<le> n \<and> n \<le> 57) \<or> (65 \<le> n \<and> n \<le> 90) \<or> n = 95 \<or> (97 \<le> n \<and> n \<le> 122)
         \<or> n = 170 \<or> n = 178 \<or> n = 179 \<or> n = 181 \<or> n = 185 \<or> n = 186
         \<or> (188 \<le> n \<and> n \<le> 190) \<or> (192 \<le> n \<and> n \<le> 214) \<or> (216 \<le> n \<and> n \<le> 246)
         \<or> (248 \<le> n \<and> n \<le> 255))"

text \<open>\<^verbatim>\<open>s.strip()\<close>\<close>

definition strip :: "string \<Rightarrow> string" where
  "strip s = rev (dropWhile is_space (rev (dropWhile is_space s)))"

text \<open>\<^verbatim>\<open>s.startswith(p)\<close>\<close>

definition startswith :: "string \<Rightarrow> string \<Rightarrow> bool" where
  "startswith s p = (take (length p) s = p)"

text \<open>\<^verbatim>\<open>p in s\<close> for two strings: \<open>p\<close> is a substring of \<open>s\<close>.\<close>

fun str_in :: "string \<Rightarrow> string \<Rightarrow> bool" where
  "str_in p [] = (p = [])"
| "str_in p (c # cs) = (startswith (c # cs) p \<or> str_in p cs)"

text \<open>\<^verbatim>\<open>s.split(sep)\<close> for a separator of one character.\<close>

fun split :: "char \<Rightarrow> string \<Rightarrow> string list" where
  "split sep [] = [[]]"
| "split sep (c # cs) =
     (if c = sep then [] # split sep cs
      else (case split sep cs of [] \<Rightarrow> [[c]] | w # ws \<Rightarrow> (c # w) # ws))"

definition newline :: char where
  "newline = CHR 0x0A"

text \<open>\<^verbatim>\<open>str(n)\<close> for an integer that is not negative (a length).\<close>

definition digit_char :: "nat \<Rightarrow> char" where
  "digit_char d = char_of (48 + d)"

fun str_nat :: "nat \<Rightarrow> string" where
  "str_nat n = (if n < 10 then [digit_char n] else str_nat (n div 10) @ [digit_char (n mod 10)])"

section \<open>Regular expressions, as far as \<^verbatim>\<open>search\<close> is asked whether there is a match\<close>

text \<open>
  The patterns of the code use literals, the classes \<^verbatim>\<open>\s\<close>, \<^verbatim>\<open>\w\<close> and \<^verbatim>\<open>.\<close>,
  alternation, sequence and repetition, and one word boundary. \<^verbatim>\<open>pattern.search(s)\<close>
  is only tested for truth, which is whether some substring of \<open>s\<close> belongs to the
  pattern's language; the matcher decides it with derivatives.
  \<open>LitI c\<close> is the letter \<open>c\<close> (given in lower case) under \<^verbatim>\<open>re.IGNORECASE\<close>.
\<close>

datatype atom = Lit char | LitI char | Space | Word | Dot

fun atom_match :: "atom \<Rightarrow> char \<Rightarrow> bool" where
  "atom_match (Lit c) x = (x = c)"
| "atom_match (LitI c) x = (lower_char x = c)"
| "atom_match Space x = is_space x"
| "atom_match Word x = is_word x"
| "atom_match Dot x = (x \<noteq> newline)"

datatype rx = Zero | One | Atom atom | Alt rx rx | Seq rx rx | Star rx

fun nullable :: "rx \<Rightarrow> bool" where
  "nullable Zero = False"
| "nullable One = True"
| "nullable (Atom a) = False"
| "nullable (Alt r s) = (nullable r \<or> nullable s)"
| "nullable (Seq r s) = (nullable r \<and> nullable s)"
| "nullable (Star r) = True"

fun deriv :: "char \<Rightarrow> rx \<Rightarrow> rx" where
  "deriv x Zero = Zero"
| "deriv x One = Zero"
| "deriv x (Atom a) = (if atom_match a x then One else Zero)"
| "deriv x (Alt r s) = Alt (deriv x r) (deriv x s)"
| "deriv x (Seq r s) =
     (if nullable r then Alt (Seq (deriv x r) s) (deriv x s) else Seq (deriv x r) s)"
| "deriv x (Star r) = Seq (deriv x r) (Star r)"

text \<open>Does a prefix of the string match?\<close>

fun match_here :: "rx \<Rightarrow> string \<Rightarrow> bool" where
  "match_here r [] = nullable r"
| "match_here r (c # cs) = (nullable r \<or> match_here (deriv c r) cs)"

text \<open>\<^verbatim>\<open>re.compile(r).search(s)\<close> is not \<^verbatim>\<open>None\<close>.\<close>

fun re_search :: "rx \<Rightarrow> string \<Rightarrow> bool" where
  "re_search r [] = nullable r"
| "re_search r (c # cs) = (match_here r (c # cs) \<or> re_search r cs)"

text \<open>
  The same for a pattern \<^verbatim>\<open>\b\<close>\<open>r\<close>: a match may only start at a word boundary,
  where exactly one of the characters before and after is a word character (the ends of
  the string count as non-word). \<open>pw\<close> says whether the character before is one.
\<close>

fun re_search_b :: "bool \<Rightarrow> rx \<Rightarrow> string \<Rightarrow> bool" where
  "re_search_b pw r [] = (pw \<and> nullable r)"
| "re_search_b pw r (c # cs) =
     ((pw \<noteq> is_word c \<and> match_here r (c # cs)) \<or> re_search_b (is_word c) r cs)"

definition seqs :: "rx list \<Rightarrow> rx" where
  "seqs rs = foldr Seq rs One"

definition alts :: "rx list \<Rightarrow> rx" where
  "alts rs = foldr Alt rs Zero"

definition lit :: "string \<Rightarrow> rx" where
  "lit s = seqs (map (\<lambda>c. Atom (Lit c)) s)"

definition lit_i :: "string \<Rightarrow> rx" where
  "lit_i s = seqs (map (\<lambda>c. Atom (LitI c)) s)"

definition opt :: "rx \<Rightarrow> rx" where
  "opt r = Alt r One"

definition one_or_more :: "rx \<Rightarrow> rx" where
  "one_or_more r = Seq r (Star r)"

definition spaces :: rx where
  "spaces = Star (Atom Space)"

definition quote_mark :: rx where
  \<open>quote_mark = Alt (Atom (Lit (CHR 0x22))) (Atom (Lit (CHR 0x27)))\<close>

subsection \<open>\<^verbatim>\<open>self.security_patterns\<close> and \<^verbatim>\<open>self.ha_patterns\<close>\<close>

text \<open>
  \<^verbatim>\<open>(?:api[_-]?key|password|secret|token)\s*=\s*["\'][\w\-]+["\']\<close>, \<^verbatim>\<open>re.IGNORECASE\<close>
\<close>

definition hardcoded_key :: rx where
  "hardcoded_key =
     seqs [alts [seqs [lit_i ''api'', opt (Alt (Atom (Lit CHR ''_'')) (Atom (Lit CHR ''-''))), lit_i ''key''],
                 lit_i ''password'', lit_i ''secret'', lit_i ''token''],
           spaces, Atom (Lit CHR ''=''), spaces,
           quote_mark, one_or_more (Alt (Atom Word) (Atom (Lit CHR ''-''))), quote_mark]"

text \<open>
  \<^verbatim>\<open>(?:execute|executemany|query)\s*\(\s*["\'].*?\{|\%\<close>, \<^verbatim>\<open>re.IGNORECASE\<close>: the
  alternation is the outermost operator, so a percent sign alone matches.
\<close>

definition sql_injection :: rx where
  "sql_injection =
     Alt (seqs [alts [lit_i ''execute'', lit_i ''executemany'', lit_i ''query''],
                spaces, Atom (Lit CHR ''(''), spaces, quote_mark, Star (Atom Dot), Atom (Lit CHR ''{'')])
         (Atom (Lit CHR ''%''))"

text \<open>\<^verbatim>\<open>\beval\s*\(\<close>: \<open>eval_usage\<close> is the part after the word boundary.\<close>

definition eval_usage :: rx where
  "eval_usage = seqs [lit ''eval'', spaces, Atom (Lit CHR ''('')]"

text \<open>\<^verbatim>\<open>requests\s*\.(?:get|post|put|delete)\<close>\<close>

definition requests_in_async :: rx where
  "requests_in_async =
     seqs [lit ''requests'', spaces, Atom (Lit CHR ''.''),
           alts [lit ''get'', lit ''post'', lit ''put'', lit ''delete'']]"

text \<open>\<^verbatim>\<open>subprocess\s*\.\s*(?:call|run|Popen).*shell\s*=\s*True\<close>\<close>

definition shell_injection :: rx where
  "shell_injection =
     seqs [lit ''subprocess'', spaces, Atom (Lit CHR ''.''), spaces,
           alts [lit ''call'', lit ''run'', lit ''Popen''], Star (Atom Dot),
           lit ''shell'', spaces, Atom (Lit CHR ''=''), spaces, lit ''True'']"

text \<open>\<^verbatim>\<open>time\.sleep\s*\(\<close>\<close>

definition blocking_sleep :: rx where
  "blocking_sleep = seqs [lit ''time.sleep'', spaces, Atom (Lit CHR ''('')]"

section \<open>What the code asks of the outside\<close>

subsection \<open>Exceptions\<close>

text \<open>
  The classes of exception that can reach a handler of the code; all are subclasses of
  \<^verbatim>\<open>Exception\<close>, and none is a subclass of another one listed. An exception carries
  the text \<^verbatim>\<open>str(e)\<close>. \<^verbatim>\<open>SyntaxError\<close> is part of the parser's result below.
\<close>

datatype exn_class =
  FileNotFoundError | TimeoutExpired | PermissionError | UnicodeDecodeError
  | JSONDecodeError | RecursionError | ValueError | TypeError | AttributeError | KeyError

datatype exn = Exn exn_class string

fun exn_class_of :: "exn \<Rightarrow> exn_class" where
  "exn_class_of (Exn c m) = c"

fun exn_str :: "exn \<Rightarrow> string" where
  "exn_str (Exn c m) = m"

subsection \<open>Values read from JSON\<close>

text \<open>What \<^verbatim>\<open>json.loads\<close> returns; a \<^verbatim>\<open>dict\<close> is the list of its items.\<close>

datatype pyval =
  PNone | PBool bool | PInt int | PFloat pyfloat | PStr string
  | PList "pyval list" | PDict "(string \<times> pyval) list"

fun type_name :: "pyval \<Rightarrow> string" where
  "type_name PNone = ''NoneType''"
| "type_name (PBool b) = ''bool''"
| "type_name (PInt i) = ''int''"
| "type_name (PFloat x) = ''float''"
| "type_name (PStr s) = ''str''"
| "type_name (PList xs) = ''list''"
| "type_name (PDict kvs) = ''dict''"

definition apostrophe :: string where
  "apostrophe = [CHR 0x27]"

text \<open>\<^verbatim>\<open>key in v\<close> for a string \<open>key\<close>.\<close>

fun py_in :: "string \<Rightarrow> pyval \<Rightarrow> exn + bool" where
  "py_in k (PDict kvs) = Inr (map_of kvs k \<noteq> None)"
| "py_in k (PList xs) = Inr (List.member xs (PStr k))"
| "py_in k (PStr s) = Inr (str_in k s)"
| "py_in k v =
     Inl (Exn TypeError (''argument of type '' @ apostrophe @ type_name v @ apostrophe @ '' is not iterable''))"

text \<open>\<^verbatim>\<open>v.get(key, default)\<close>\<close>

fun py_get :: "pyval \<Rightarrow> string \<Rightarrow> pyval \<Rightarrow> exn + pyval" where
  "py_get (PDict kvs) k d = Inr (case map_of kvs k of None \<Rightarrow> d | Some v \<Rightarrow> v)"
| "py_get v k d =
     Inl (Exn AttributeError (apostrophe @ type_name v @ apostrophe @ '' object has no attribute ''
            @ apostrophe @ ''get'' @ apostrophe))"

text \<open>\<^verbatim>\<open>bool(v)\<close>: the truth value \<^verbatim>\<open>not v\<close> negates.\<close>

fun truthy :: "pyval \<Rightarrow> bool" where
  "truthy PNone = False"
| "truthy (PBool b) = b"
| "truthy (PInt i) = (i \<noteq> 0)"
| "truthy (PFloat x) = (x \<noteq> Finite 0)"
| "truthy (PStr s) = (s \<noteq> [])"
| "truthy (PList xs) = (xs \<noteq> [])"
| "truthy (PDict kvs) = (kvs \<noteq> [])"

subsection \<open>Syntax trees\<close>

text \<open>
  What \<^verbatim>\<open>_check_ast_patterns\<close> reads of a node of \<^verbatim>\<open>ast\<close>: for a \<^verbatim>\<open>FunctionDef\<close> its
  name, whether \<^verbatim>\<open>returns\<close> is not \<^verbatim>\<open>None\<close>, and \<^verbatim>\<open>lineno\<close>; for an
  \<^verbatim>\<open>ExceptHandler\<close> its \<^verbatim>\<open>type\<close> and \<^verbatim>\<open>lineno\<close>; and the children of every node.
\<close>

datatype handler_type = NoType | NameType string | OtherType

datatype node_kind = FunctionDef string bool int | ExceptHandler handler_type int | OtherNode

datatype node = Node node_kind "node list"

text \<open>
  \<^verbatim>\<open>ast.walk\<close>: breadth first, from a queue that starts with the root; \<open>walk_queue\<close>
  is the loop on the queue.
\<close>

function walk_queue :: "node list \<Rightarrow> node list" where
  "walk_queue [] = []"
| "walk_queue (Node k cs # todo) = Node k cs # walk_queue (todo @ cs)"
  by pat_completeness auto
termination
  by (relation "measure (size_list size)") simp_all

definition walk :: "node \<Rightarrow> node list" where
  "walk tree = walk_queue [tree]"

text \<open>
  The result of \<^verbatim>\<open>ast.parse(content)\<close>: a tree, a \<^verbatim>\<open>SyntaxError\<close> with its
  \<^verbatim>\<open>lineno\<close> (which may be \<^verbatim>\<open>None\<close>) and \<^verbatim>\<open>msg\<close>, or another exception.
\<close>

datatype parse_result = Parsed node | SyntaxError "int option" string | ParseRaises exn

subsection \<open>Subprocesses\<close>

text \<open>
  The arguments of a call of \<^verbatim>\<open>subprocess.run\<close>; \<open>timeout\<close> is the keyword of that
  name, \<open>None\<close> when the call does not give it (its default).
\<close>

record run_args =
  cmd :: "string list"
  capture_output :: bool
  text_mode :: bool
  cwd :: string
  timeout :: "real option"

record CompletedProcess =
  returncode :: int
  stdout :: string

subsection \<open>The world\<close>

text \<open>
  One field for each question the code asks: \<^verbatim>\<open>ast.parse\<close>, \<^verbatim>\<open>json.loads\<close>,
  \<^verbatim>\<open>subprocess.run\<close>, \<^verbatim>\<open>(root_path / "tests").exists()\<close>,
  \<^verbatim>\<open>(root_path / "coverage.json").exists()\<close> (asked after pytest has run),
  \<^verbatim>\<open>json.loads(coverage_file.read_text())["totals"]["percent_covered"]\<close> (an exception
  of any of the three steps, or the number found: the field \<^verbatim>\<open>coverage_percent\<close> is
  declared \<^verbatim>\<open>float\<close>, and a value that is not a number is outside this model), and the
  format \<^verbatim>\<open>{x:.1f}\<close> of a float.
\<close>

record world =
  ast_parse :: "string \<Rightarrow> parse_result"
  json_loads :: "string \<Rightarrow> exn + pyval"
  subprocess_run :: "run_args \<Rightarrow> exn + CompletedProcess"
  tests_exists :: bool
  coverage_file_exists :: bool
  percent_covered :: "exn + pyfloat"
  format_1f :: "pyfloat \<Rightarrow> string"

text \<open>
  A file to review, a \<^verbatim>\<open>Path\<close>: \<^verbatim>\<open>str(file)\<close>, \<^verbatim>\<open>file.suffix\<close>, \<^verbatim>\<open>file.name\<close>
  and the result of \<^verbatim>\<open>file.read_text()\<close>.
\<close>

record artifact =
  path :: string
  suffix :: string
  name :: string
  read_text :: "exn + string"

section \<open>CodeReviewer\<close>

text \<open>
  The reviewer's state: \<^verbatim>\<open>self.root_path\<close>, \<^verbatim>\<open>self.result\<close>, and the lines printed to
  \<^verbatim>\<open>sys.stderr\<close> so far.
\<close>

record CodeReviewer =
  root_path :: string
  result :: ReviewResult
  sys_stderr :: "string list"

text \<open>\<^verbatim>\<open>CodeReviewer(root_path)\<close>\<close>

definition new_CodeReviewer :: "string \<Rightarrow> CodeReviewer" where
  "new_CodeReviewer rp = \<lparr>root_path = rp, result = new_ReviewResult, sys_stderr = []\<rparr>"

text \<open>\<^verbatim>\<open>self.result.add_issue(issue)\<close>\<close>

definition emit :: "Issue \<Rightarrow> CodeReviewer \<Rightarrow> CodeReviewer" where
  "emit issue self = self\<lparr>result := add_issue issue (result self)\<rparr>"

text \<open>\<^verbatim>\<open>self.result.positives.append(note)\<close>\<close>

definition add_positive :: "string \<Rightarrow> CodeReviewer \<Rightarrow> CodeReviewer" where
  "add_positive note self =
     self\<lparr>result := (result self)\<lparr>positives := positives (result self) @ [note]\<rparr>\<rparr>"

text \<open>\<^verbatim>\<open>print(msg, file=sys.stderr)\<close>\<close>

definition print_stderr :: "string \<Rightarrow> CodeReviewer \<Rightarrow> CodeReviewer" where
  "print_stderr msg self = self\<lparr>sys_stderr := sys_stderr self @ [msg]\<rparr>"

text \<open>
  The first characters of the positive notes in the source file are the three code points
  U+00E2, U+0153, U+2026; the notes are only stored, and the model writes the prefix as
  its UTF-8 bytes.
\<close>

definition check_mark :: string where
  "check_mark = [CHR 0xC3, CHR 0xA2, CHR 0xC5, CHR 0x93, CHR 0xE2, CHR 0x80, CHR 0xA6]"

subsection \<open>\<^verbatim>\<open>_check_security_issues\<close>\<close>

definition hardcoded_credential_issue :: "string \<Rightarrow> int \<Rightarrow> Issue" where
  "hardcoded_credential_issue f i =
     (mk_issue BLOCKING SECURITY f (Some i) ''Hardcoded Credential''
        ''Hardcoded API key, password, or secret detected'')
     \<lparr>suggestion := Some ''Store credentials in config entry data'',
      code_example := Some ''api_key = entry.data[CONF_API_KEY]'',
      reference := Some ''https://developers.home-assistant.io/docs/config_entries_config_flow_handler''\<rparr>"

text \<open>
  The loop \<^verbatim>\<open>for i, line in enumerate(lines, 1)\<close>; \<open>i\<close> is the number of the first
  line of the list.
\<close>

fun hardcoded_loop :: "string \<Rightarrow> int \<Rightarrow> string list \<Rightarrow> CodeReviewer \<Rightarrow> CodeReviewer" where
  "hardcoded_loop f i [] self = self"
| "hardcoded_loop f i (l # ls) self =
     hardcoded_loop f (i + 1) ls
       (if re_search hardcoded_key l then
          (if \<not> str_in ''test'' (lower f) \<and> \<not> startswith (strip l) ''#''
           then emit (hardcoded_credential_issue f i) self
           else self)
        else self)"

definition sql_injection_issue :: "string \<Rightarrow> Issue" where
  \<open>sql_injection_issue f =
     (mk_issue BLOCKING SECURITY f None ''Potential SQL Injection''
        ''SQL query using string formatting detected'')
     \<lparr>suggestion := Some ''Use parameterized queries'',
      code_example := Some ''cursor.execute("SELECT * FROM t WHERE id = ?", (id,))''\<rparr>\<close>

definition eval_issue :: "string \<Rightarrow> Issue" where
  "eval_issue f =
     (mk_issue BLOCKING SECURITY f None ''Unsafe eval() Usage''
        ''Use of eval() detected - potential code injection'')
     \<lparr>suggestion := Some ''Use ast.literal_eval() or json.loads() instead''\<rparr>"

definition shell_injection_issue :: "string \<Rightarrow> Issue" where
  \<open>shell_injection_issue f =
     (mk_issue BLOCKING SECURITY f None ''Shell Injection Risk''
        ''subprocess call with shell=True detected'')
     \<lparr>suggestion := Some ''Use shell=False and pass command as list'',
      code_example := Some ''subprocess.run(["ls", "-la"], shell=False)''\<rparr>\<close>

definition check_security_issues :: "string \<Rightarrow> string \<Rightarrow> string list \<Rightarrow> CodeReviewer \<Rightarrow> CodeReviewer" where
  "check_security_issues f content lines self =
     (let s1 = hardcoded_loop f 1 lines self;
          s2 = (if re_search sql_injection content then emit (sql_injection_issue f) s1 else s1);
          s3 = (if re_search_b False eval_usage content then emit (eval_issue f) s2 else s2)
      in if re_search shell_injection content then emit (shell_injection_issue f) s3 else s3)"

subsection \<open>\<^verbatim>\<open>_check_ha_patterns\<close>\<close>

definition blocking_io_issue :: "string \<Rightarrow> Issue" where
  "blocking_io_issue f =
     (mk_issue BLOCKING ASYNC f None ''Blocking I/O in Async Function''
        ''Using requests library in async function blocks event loop'')
     \<lparr>suggestion := Some ''Use aiohttp for async HTTP requests'',
      code_example := Some (''async with aiohttp.ClientSession() as session:'' @ [newline]
        @ ''    async with session.get(url) as response:'' @ [newline]
        @ ''        return await response.json()''),
      reference := Some ''https://developers.home-assistant.io/docs/asyncio_working_with_async''\<rparr>"

definition blocking_sleep_issue :: "string \<Rightarrow> Issue" where
  "blocking_sleep_issue f =
     (mk_issue BLOCKING ASYNC f None ''Blocking Sleep in Async Function''
        ''Using time.sleep() in async function blocks event loop'')
     \<lparr>suggestion := Some ''Use asyncio.sleep() instead'',
      code_example := Some ''await asyncio.sleep(seconds)''\<rparr>"

definition check_ha_patterns :: "string \<Rightarrow> string \<Rightarrow> string list \<Rightarrow> CodeReviewer \<Rightarrow> CodeReviewer" where
  "check_ha_patterns f content lines self =
     (let s1 = (if str_in ''async def'' content \<and> re_search requests_in_async content
                then emit (blocking_io_issue f) self else self)
      in if str_in ''async def'' content \<and> re_search blocking_sleep content
         then emit (blocking_sleep_issue f) s1 else s1)"

subsection \<open>\<^verbatim>\<open>_check_ast_patterns\<close>\<close>

definition missing_return_issue :: "string \<Rightarrow> string \<Rightarrow> int \<Rightarrow> Issue" where
  "missing_return_issue f nm lno =
     (mk_issue WARNING QUALITY f (Some lno) ''Missing Return Type Hint''
        (''Function '' @ apostrophe @ nm @ apostrophe @ '' has no return type hint''))
     \<lparr>suggestion := Some ''Add type hints to all public functions''\<rparr>"

definition broad_except_issue :: "string \<Rightarrow> int \<Rightarrow> Issue" where
  "broad_except_issue f lno =
     (mk_issue WARNING QUALITY f (Some lno) ''Broad Exception Catching''
        ''Catching generic Exception or all exceptions'')
     \<lparr>suggestion := Some ''Catch specific exceptions when possible''\<rparr>"

text \<open>The body of the loop \<^verbatim>\<open>for node in ast.walk(tree)\<close>: its two tests, in turn.\<close>

fun check_node :: "string \<Rightarrow> node \<Rightarrow> CodeReviewer \<Rightarrow> CodeReviewer" where
  "check_node f (Node k cs) self =
     (let s1 = (case k of
                  FunctionDef nm has_returns lno \<Rightarrow>
                    if \<not> has_returns \<and> \<not> startswith nm ''_''
                    then emit (missing_return_issue f nm lno) self else self
                | _ \<Rightarrow> self)
      in case k of
           ExceptHandler t lno \<Rightarrow>
             if t = NoType \<or> t = NameType ''Exception''
             then emit (broad_except_issue f lno) s1 else s1
         | _ \<Rightarrow> s1)"

fun check_nodes :: "string \<Rightarrow> node list \<Rightarrow> CodeReviewer \<Rightarrow> CodeReviewer" where
  "check_nodes f [] self = self"
| "check_nodes f (n # ns) self = check_nodes f ns (check_node f n self)"

definition check_ast_patterns :: "string \<Rightarrow> node \<Rightarrow> string list \<Rightarrow> CodeReviewer \<Rightarrow> CodeReviewer" where
  "check_ast_patterns f tree lines self = check_nodes f (walk tree) self"

subsection \<open>\<^verbatim>\<open>_review_python_file\<close>\<close>

definition syntax_error_issue :: "string \<Rightarrow> int option \<Rightarrow> string \<Rightarrow> Issue" where
  "syntax_error_issue f lno msg =
     mk_issue BLOCKING QUALITY f lno ''Syntax Error'' (''Python syntax error: '' @ msg)"

definition error_reviewing :: "string \<Rightarrow> exn \<Rightarrow> string" where
  "error_reviewing f e = ''Error reviewing '' @ f @ '': '' @ exn_str e"

text \<open>
  The outer handler \<^verbatim>\<open>except Exception\<close> catches every exception of the model, so the
  function always returns.
\<close>

definition review_python_file :: "world \<Rightarrow> artifact \<Rightarrow> CodeReviewer \<Rightarrow> CodeReviewer" where
  "review_python_file w a self =
     (case read_text a of
        Inl e \<Rightarrow> print_stderr (error_reviewing (path a) e) self
      | Inr content \<Rightarrow>
          (let lines = split newline content;
               s1 = check_security_issues (path a) content lines self;
               s2 = check_ha_patterns (path a) content lines s1
           in case ast_parse w content of
                Parsed tree \<Rightarrow> check_ast_patterns (path a) tree lines s2
              | SyntaxError lno msg \<Rightarrow> emit (syntax_error_issue (path a) lno msg) s2
              | ParseRaises e \<Rightarrow> print_stderr (error_reviewing (path a) e) s2))"

subsection \<open>\<^verbatim>\<open>_review_manifest\<close> and \<^verbatim>\<open>_review_strings\<close>\<close>

definition required_fields :: "string list" where
  "required_fields =
     [''domain'', ''name'', ''version'', ''codeowners'', ''documentation'', ''iot_class'',
      ''integration_type'']"

definition missing_field_issue :: "string \<Rightarrow> string \<Rightarrow> Issue" where
  "missing_field_issue f fld =
     (mk_issue BLOCKING QUALITY f None (''Missing Required Field: '' @ fld)
        (''manifest.json must include '' @ apostrophe @ fld @ apostrophe))
     \<lparr>reference := Some ''https://developers.home-assistant.io/docs/creating_integration_manifest''\<rparr>"

text \<open>The loop \<^verbatim>\<open>for field in required_fields\<close>; the test \<^verbatim>\<open>in\<close> may raise.\<close>

fun required_loop :: "string \<Rightarrow> pyval \<Rightarrow> string list \<Rightarrow> CodeReviewer \<Rightarrow> exn + CodeReviewer" where
  "required_loop f manifest [] self = Inr self"
| "required_loop f manifest (fld # flds) self =
     (case py_in fld manifest of
        Inl e \<Rightarrow> Inl e
      | Inr present \<Rightarrow>
          required_loop f manifest flds
            (if \<not> present then emit (missing_field_issue f fld) self else self))"

definition config_flow_issue :: "string \<Rightarrow> Issue" where
  "config_flow_issue f =
     (mk_issue WARNING PATTERN f None ''Config Flow Not Enabled''
        ''New integrations should use config flow'')
     \<lparr>suggestion := Some (''Set '' @ apostrophe @ ''config_flow: true'' @ apostrophe
                            @ '' and implement config_flow.py'')\<rparr>"

definition invalid_json_issue :: "string \<Rightarrow> string \<Rightarrow> exn \<Rightarrow> Issue" where
  "invalid_json_issue f who e =
     mk_issue BLOCKING QUALITY f None ''Invalid JSON'' (who @ '' has invalid JSON: '' @ exn_str e)"

text \<open>\<^verbatim>\<open>json.loads(file.read_text())\<close>\<close>

definition load_json :: "world \<Rightarrow> artifact \<Rightarrow> exn + pyval" where
  "load_json w a = (case read_text a of Inl e \<Rightarrow> Inl e | Inr content \<Rightarrow> json_loads w content)"

text \<open>
  Only \<^verbatim>\<open>json.JSONDecodeError\<close> is caught; the exceptions of the field tests on a
  document that is not a \<^verbatim>\<open>dict\<close> are of other classes and leave the function.
\<close>

definition review_manifest :: "world \<Rightarrow> artifact \<Rightarrow> CodeReviewer \<Rightarrow> exn + CodeReviewer" where
  "review_manifest w a self =
     (case load_json w a of
        Inl e \<Rightarrow>
          if exn_class_of e = JSONDecodeError
          then Inr (emit (invalid_json_issue (path a) ''manifest.json'' e) self)
          else Inl e
      | Inr manifest \<Rightarrow>
          (case required_loop (path a) manifest required_fields self of
             Inl e \<Rightarrow> Inl e
           | Inr s1 \<Rightarrow>
               (case py_get manifest ''config_flow'' (PBool False) of
                  Inl e \<Rightarrow> Inl e
                | Inr flag \<Rightarrow>
                    Inr (if \<not> truthy flag then emit (config_flow_issue (path a)) s1 else s1))))"

definition review_strings :: "world \<Rightarrow> artifact \<Rightarrow> CodeReviewer \<Rightarrow> exn + CodeReviewer" where
  "review_strings w a self =
     (case load_json w a of
        Inl e \<Rightarrow>
          if exn_class_of e = JSONDecodeError
          then Inr (emit (invalid_json_issue (path a) ''strings.json'' e) self)
          else Inl e
      | Inr v \<Rightarrow> Inr (add_positive (check_mark @ '' strings.json is valid JSON'') self))"

subsection \<open>\<^verbatim>\<open>_run_linter\<close>\<close>

text \<open>
  \<^verbatim>\<open>subprocess.run(["ruff", "check", "custom_components/", "--quiet"],
  capture_output=True, text=True, cwd=self.root_path)\<close>: the call gives no timeout.
\<close>

definition ruff_call :: "string \<Rightarrow> run_args" where
  "ruff_call rp =
     \<lparr>cmd = [''ruff'', ''check'', ''custom_components/'', ''--quiet''],
      capture_output = True, text_mode = True, cwd = rp, timeout = None\<rparr>"

definition linting_issue :: Issue where
  "linting_issue =
     (mk_issue WARNING QUALITY ''multiple'' None ''Linting Errors'' ''Ruff linter found issues'')
     \<lparr>suggestion := Some ''Run: ruff check custom_components/ --fix''\<rparr>"

text \<open>The handler is \<^verbatim>\<open>except FileNotFoundError\<close>: any other exception leaves the function.\<close>

definition run_linter :: "world \<Rightarrow> CodeReviewer \<Rightarrow> exn + CodeReviewer" where
  "run_linter w self =
     (case subprocess_run w (ruff_call (root_path self)) of
        Inl e \<Rightarrow>
          if exn_class_of e = FileNotFoundError
          then Inr (print_stderr ''Warning: Ruff not found, skipping lint check'' self)
          else Inl e
      | Inr res \<Rightarrow>
          Inr (if returncode res = 0
               then add_positive (check_mark @ '' Ruff linter passes with no errors'') self
               else emit linting_issue self))"

subsection \<open>\<^verbatim>\<open>_run_type_checker\<close>\<close>

definition mypy_call :: "string \<Rightarrow> run_args" where
  "mypy_call rp =
     \<lparr>cmd = [''mypy'', ''custom_components/''],
      capture_output = True, text_mode = True, cwd = rp, timeout = None\<rparr>"

text \<open>\<^verbatim>\<open>len([line for line in result.stdout.split("\n") if "error:" in line])\<close>\<close>

definition error_count :: "string \<Rightarrow> nat" where
  "error_count out = length (filter (str_in ''error:'') (split newline out))"

definition type_check_issue :: "nat \<Rightarrow> Issue" where
  "type_check_issue n =
     (mk_issue WARNING QUALITY ''multiple'' None (''Type Check Errors ('' @ str_nat n @ '')'')
        ''mypy found type checking issues'')
     \<lparr>suggestion := Some ''Run: mypy custom_components/''\<rparr>"

definition run_type_checker :: "world \<Rightarrow> CodeReviewer \<Rightarrow> exn + CodeReviewer" where
  "run_type_checker w self =
     (case subprocess_run w (mypy_call (root_path self)) of
        Inl e \<Rightarrow>
          if exn_class_of e = FileNotFoundError
          then Inr (print_stderr ''Warning: mypy not found, skipping type check'' self)
          else Inl e
      | Inr res \<Rightarrow>
          Inr (if returncode res = 0
               then add_positive (check_mark @ '' Type checking passes with no errors'') self
               else if error_count (stdout res) > 0
                    then emit (type_check_issue (error_count (stdout res))) self
                    else self))"

subsection \<open>\<^verbatim>\<open>_check_test_coverage\<close>\<close>

definition pytest_call :: "string \<Rightarrow> run_args" where
  "pytest_call rp =
     \<lparr>cmd = [''pytest'', ''tests/'', ''--cov=custom_components'', ''--cov-report=json'', ''--quiet''],
      capture_output = True, text_mode = True, cwd = rp, timeout = None\<rparr>"

definition coverage_below_target_issue :: "string \<Rightarrow> Issue" where
  "coverage_below_target_issue shown =
     (mk_issue WARNING TESTING ''tests/'' None ''Test Coverage Below Target''
        (''Coverage is '' @ shown @ ''%, target is 80%''))
     \<lparr>suggestion := Some ''Add tests for uncovered code paths''\<rparr>"

definition insufficient_coverage_issue :: "string \<Rightarrow> Issue" where
  "insufficient_coverage_issue shown =
     (mk_issue BLOCKING TESTING ''tests/'' None ''Insufficient Test Coverage''
        (''Coverage is '' @ shown @ ''%, minimum is 60%''))
     \<lparr>suggestion := Some ''Add comprehensive tests for new functionality''\<rparr>"

definition could_not_check :: "exn \<Rightarrow> string" where
  "could_not_check e = ''Warning: Could not check test coverage: '' @ exn_str e"

text \<open>
  The handler is \<^verbatim>\<open>except Exception\<close>, so the function always returns. The result of
  the pytest run itself is not read.
\<close>

definition check_test_coverage :: "world \<Rightarrow> CodeReviewer \<Rightarrow> CodeReviewer" where
  "check_test_coverage w self =
     (case subprocess_run w (pytest_call (root_path self)) of
        Inl e \<Rightarrow> print_stderr (could_not_check e) self
      | Inr res \<Rightarrow>
          if coverage_file_exists w then
            (case percent_covered w of
               Inl e \<Rightarrow> print_stderr (could_not_check e) self
             | Inr p \<Rightarrow>
                 (let s1 = self\<lparr>result := (result self)\<lparr>coverage_percent := p\<rparr>\<rparr>
                  in if float_ge p 80
                     then add_positive (check_mark @ '' Excellent test coverage: '' @ format_1f w p @ ''%'') s1
                     else if float_ge p 60
                          then emit (coverage_below_target_issue (format_1f w p)) s1
                          else emit (insufficient_coverage_issue (format_1f w p)) s1))
          else self)"

subsection \<open>\<^verbatim>\<open>_assess_quality_tier\<close>\<close>

text \<open>
  \<^verbatim>\<open>has_config_flow\<close> is computed and never read; \<^verbatim>\<open>has_tests\<close> is the world's
  \<open>tests_exists\<close>.
\<close>

definition assess_quality_tier :: "world \<Rightarrow> CodeReviewer \<Rightarrow> CodeReviewer" where
  "assess_quality_tier w self =
     (let has_tests = tests_exists w;
          r = result self
      in self\<lparr>result := r\<lparr>quality_tier :=
           (if has_blocking_issues r then ''Below Bronze''
            else if \<not> has_tests \<or> float_lt (coverage_percent r) 60 then ''Bronze (needs testing)''
            else if float_ge (coverage_percent r) 80 \<and> length (warnings r) = 0 then ''Gold''
            else if float_ge (coverage_percent r) 60 then ''Silver''
            else ''Bronze'')\<rparr>\<rparr>)"

subsection \<open>\<^verbatim>\<open>review_files\<close>\<close>

text \<open>The loop over the files: the first exception that leaves a reviewer ends it.\<close>

fun review_loop :: "world \<Rightarrow> artifact list \<Rightarrow> CodeReviewer \<Rightarrow> exn + CodeReviewer" where
  "review_loop w [] self = Inr self"
| "review_loop w (a # as) self =
     (if suffix a = ''.py'' then review_loop w as (review_python_file w a self)
      else if name a = ''manifest.json'' then
        (case review_manifest w a self of Inl e \<Rightarrow> Inl e | Inr s1 \<Rightarrow> review_loop w as s1)
      else if name a = ''strings.json'' then
        (case review_strings w a self of Inl e \<Rightarrow> Inl e | Inr s1 \<Rightarrow> review_loop w as s1)
      else review_loop w as self)"

text \<open>The automated checks and the tier, after the loop.\<close>

definition run_checks :: "world \<Rightarrow> CodeReviewer \<Rightarrow> exn + CodeReviewer" where
  "run_checks w self =
     (case run_linter w self of
        Inl e \<Rightarrow> Inl e
      | Inr s1 \<Rightarrow>
          (case run_type_checker w s1 of
             Inl e \<Rightarrow> Inl e
           | Inr s2 \<Rightarrow> Inr (assess_quality_tier w (check_test_coverage w s2))))"

definition review_files :: "world \<Rightarrow> artifact list \<Rightarrow> CodeReviewer \<Rightarrow> exn + CodeReviewer" where
  "review_files w files self =
     (case review_loop w files
             (self\<lparr>result := (result self)\<lparr>files_reviewed := length files\<rparr>\<rparr>) of
        Inl e \<Rightarrow> Inl e
      | Inr s1 \<Rightarrow> run_checks w s1)"

section \<open>The decision table of the specification\<close>

text \<open>
  The quality assessor as the specification words it: a function of
  \<open>(has_blocking, has_tests, coverage_percent, warning_count)\<close>, an ordered table in which
  the first matching rule wins.
\<close>

definition tier_table :: "bool \<Rightarrow> bool \<Rightarrow> pyfloat \<Rightarrow> nat \<Rightarrow> string" where
  "tier_table has_blocking has_tests cov warning_count =
     (if has_blocking then ''Below Bronze''
      else if \<not> has_tests \<or> float_lt cov 60 then ''Bronze (needs testing)''
      else if float_ge cov 80 \<and> warning_count = 0 then ''Gold''
      else if float_ge cov 60 then ''Silver''
      else ''Bronze'')"

section \<open>What a loop emits, as a list\<close>

text \<open>
  The issues that the loop over the lines in \<^verbatim>\<open>_check_security_issues\<close> adds, in order,
  when the first line of the list has the number \<open>i\<close>.
\<close>

fun credential_issues :: "string \<Rightarrow> int \<Rightarrow> string list \<Rightarrow> Issue list" where
  "credential_issues f i [] = []"
| "credential_issues f i (l # ls) =
     (if re_search hardcoded_key l \<and> \<not> str_in ''test'' (lower f) \<and> \<not> startswith (strip l) ''#''
      then [hardcoded_credential_issue f i] else [])
     @ credential_issues f (i + 1) ls"


section \<open>Sample inputs\<close>

text \<open>
  A world for the examples: \<^verbatim>\<open>tests/\<close> exists, no tool is installed, there is no
  coverage report, every Python file parses to a single node and every JSON file to an
  empty object.
\<close>

definition quiet_world :: world where
  "quiet_world =
     \<lparr>ast_parse = (\<lambda>content. Parsed (Node OtherNode [])),
      json_loads = (\<lambda>content. Inr (PDict [])),
      subprocess_run = (\<lambda>a. Inl (Exn FileNotFoundError ''[Errno 2] No such file or directory'')),
      tests_exists = True,
      coverage_file_exists = False,
      percent_covered = Inl (Exn KeyError ''totals''),
      format_1f = (\<lambda>x. ''?'')\<rparr>"

text \<open>
  A source file of three lines: an import, the line \<^verbatim>\<open>password = "abc123"\<close>, and the
  same text in a comment.
\<close>

definition credential_line :: string where
  \<open>credential_line = ''password = "abc123"''\<close>

definition commented_line :: string where
  \<open>commented_line = ''# password = "abc123"''\<close>

definition sample_content :: string where
  "sample_content = ''import os'' @ [newline] @ credential_line @ [newline] @ commented_line"

text \<open>A Python file that the parser rejects at its first line.\<close>

definition broken_file :: artifact where
  "broken_file =
     \<lparr>path = ''custom_components/demo/broken.py'', suffix = ''.py'', name = ''broken.py'',
      read_text = Inr (''def f(:'' @ [newline] @ ''    pass'')\<rparr>"

definition rejecting_world :: world where
  "rejecting_world = quiet_world\<lparr>ast_parse := (\<lambda>content. SyntaxError (Some 1) ''invalid syntax'')\<rparr>"





text \<open>Worlds in which every tool runs and exits with a status and an output.\<close>

definition tool_world :: "int \<Rightarrow> string \<Rightarrow> world" where
  "tool_world rc out = quiet_world\<lparr>subprocess_run := (\<lambda>a. Inr \<lparr>returncode = rc, stdout = out\<rparr>)\<rparr>"

text \<open>A world in which \<^verbatim>\<open>subprocess.run\<close> raises \<^verbatim>\<open>TimeoutExpired\<close>.\<close>

definition expiring_world :: world where
  "expiring_world =
     quiet_world\<lparr>subprocess_run := (\<lambda>a. Inl (Exn TimeoutExpired ''Command timed out''))\<rparr>"

text \<open>An output of mypy with two error lines.\<close>

definition mypy_output :: string where
  "mypy_output = ''a.py:3: error: Incompatible return value type'' @ [newline]
     @ ''a.py:3: note: see docs'' @ [newline]
     @ ''b.py:9: error: Name x is not defined'' @ [newline]
     @ ''Found 2 errors in 2 files (checked 5 source files)'' @ [newline]"

text \<open>
  A world in which every tool runs and exits with status 0, and the coverage report exists
  and gives the percentage \<open>p\<close>, which \<^verbatim>\<open>{p:.1f}\<close> formats as \<open>shown\<close>.
\<close>

definition coverage_world :: "pyfloat \<Rightarrow> string \<Rightarrow> world" where
  "coverage_world p shown =
     (tool_world 0 '''')\<lparr>coverage_file_exists := True, percent_covered := Inr p,
                          format_1f := (\<lambda>x. shown)\<rparr>"

text \<open>
  A Python file holding one expression, \<^verbatim>\<open>a.b.b.b\<close> and so on with 100000 attributes, on
  which \<^verbatim>\<open>ast.parse\<close> raises \<^verbatim>\<open>RecursionError\<close>, and a world in which the parser
  does so.
\<close>

definition deep_expression :: string where
  "deep_expression = ''a'' @ concat (replicate 100000 ''.b'')"

definition deep_file :: artifact where
  "deep_file =
     \<lparr>path = ''custom_components/demo/deep.py'', suffix = ''.py'', name = ''deep.py'',
      read_text = Inr deep_expression\<rparr>"

definition overflowing_world :: world where
  "overflowing_world =
     quiet_world\<lparr>ast_parse := (\<lambda>content. ParseRaises (Exn RecursionError
        ''maximum recursion depth exceeded during ast construction''))\<rparr>"



section \<open>The aggregator's invariant\<close>

lemma add_issues_blocking:
  "blocking (add_issues iss r) = blocking r @ filter (\<lambda>i. severity i = BLOCKING) iss"
  by (induction iss arbitrary: r) (simp_all add: add_issue_def)

lemma add_issues_warnings:
  "warnings (add_issues iss r) = warnings r @ filter (\<lambda>i. severity i = WARNING) iss"
  by (induction iss arbitrary: r) (simp_all add: add_issue_def)

lemma add_issues_nitpicks:
  "nitpicks (add_issues iss r) = nitpicks r @ filter (\<lambda>i. severity i = NITPICK) iss"
proof (induction iss arbitrary: r)
  case Nil
  show ?case by simp
next
  case (Cons i iss)
  show ?case
    by (cases "severity i") (simp_all add: Cons.IH add_issue_def)
qed

lemma length_three_filters:
  "length (filter (\<lambda>i. severity i = BLOCKING) iss) + length (filter (\<lambda>i. severity i = WARNING) iss)
     + length (filter (\<lambda>i. severity i = NITPICK) iss) = length iss"
proof (induction iss)
  case Nil
  show ?case by simp
next
  case (Cons i iss)
  then show ?case by (cases "severity i") simp_all
qed

lemma severity_cases: "severity i = BLOCKING \<or> severity i = WARNING \<or> severity i = NITPICK"
  by (cases "severity i") simp_all

text \<open>
  Claim C5. After any sequence of \<^verbatim>\<open>add_issue\<close> calls, each bucket holds the issues of
  its severity, in the order they were added, after what it held before; the total is the
  sum of the three lengths and grows by one per call; starting from a new result the three
  buckets are pairwise disjoint and together hold exactly the issues added; and
  \<^verbatim>\<open>has_blocking_issues\<close> is true exactly when the blocking bucket is not empty.
\<close>

theorem review_result_partition:
  "blocking (add_issues iss r) = blocking r @ filter (\<lambda>i. severity i = BLOCKING) iss
   \<and> warnings (add_issues iss r) = warnings r @ filter (\<lambda>i. severity i = WARNING) iss
   \<and> nitpicks (add_issues iss r) = nitpicks r @ filter (\<lambda>i. severity i = NITPICK) iss
   \<and> total_issues (add_issues iss r)
       = length (blocking (add_issues iss r)) + length (warnings (add_issues iss r))
         + length (nitpicks (add_issues iss r))
   \<and> total_issues (add_issues iss r) = total_issues r + length iss
   \<and> total_issues (add_issues iss new_ReviewResult) = length iss
   \<and> set (blocking (add_issues iss new_ReviewResult)) \<union> set (warnings (add_issues iss new_ReviewResult))
       \<union> set (nitpicks (add_issues iss new_ReviewResult)) = set iss
   \<and> set (blocking (add_issues iss new_ReviewResult)) \<inter> set (warnings (add_issues iss new_ReviewResult)) = {}
   \<and> set (blocking (add_issues iss new_ReviewResult)) \<inter> set (nitpicks (add_issues iss new_ReviewResult)) = {}
   \<and> set (warnings (add_issues iss new_ReviewResult)) \<inter> set (nitpicks (add_issues iss new_ReviewResult)) = {}
   \<and> has_blocking_issues (add_issues iss r) = (blocking (add_issues iss r) \<noteq> [])"
proof -
  have tot: "total_issues (add_issues iss r) = total_issues r + length iss"
    using length_three_filters [of iss]
    by (simp add: total_issues_def add_issues_blocking add_issues_warnings add_issues_nitpicks)
  have tot0: "total_issues (add_issues iss new_ReviewResult) = length iss"
    using length_three_filters [of iss]
    by (simp add: total_issues_def add_issues_blocking add_issues_warnings add_issues_nitpicks
        new_ReviewResult_def)
  have un: "set (blocking (add_issues iss new_ReviewResult)) \<union> set (warnings (add_issues iss new_ReviewResult))
       \<union> set (nitpicks (add_issues iss new_ReviewResult)) = set iss"
    using severity_cases
    by (auto simp add: add_issues_blocking add_issues_warnings add_issues_nitpicks new_ReviewResult_def)
  have d1: "set (blocking (add_issues iss new_ReviewResult)) \<inter> set (warnings (add_issues iss new_ReviewResult)) = {}"
    by (auto simp add: add_issues_blocking add_issues_warnings new_ReviewResult_def)
  have d2: "set (blocking (add_issues iss new_ReviewResult)) \<inter> set (nitpicks (add_issues iss new_ReviewResult)) = {}"
    by (auto simp add: add_issues_blocking add_issues_nitpicks new_ReviewResult_def)
  have d3: "set (warnings (add_issues iss new_ReviewResult)) \<inter> set (nitpicks (add_issues iss new_ReviewResult)) = {}"
    by (auto simp add: add_issues_warnings add_issues_nitpicks new_ReviewResult_def)
  have hb: "has_blocking_issues (add_issues iss r) = (blocking (add_issues iss r) \<noteq> [])"
    by (simp add: has_blocking_issues_def)
  show ?thesis
    using tot tot0 un d1 d2 d3 hb add_issues_blocking [of iss r] add_issues_warnings [of iss r]
      add_issues_nitpicks [of iss r]
    by (simp add: total_issues_def)
qed

theorem review_result_partition_witness:
  "blocking (add_issues [mk_issue WARNING QUALITY ''a.py'' (Some 3) ''t1'' ''d1'',
                         mk_issue BLOCKING SECURITY ''a.py'' None ''t2'' ''d2'',
                         mk_issue NITPICK PATTERN ''b.py'' None ''t3'' ''d3'',
                         mk_issue BLOCKING QUALITY ''b.py'' (Some 1) ''t4'' ''d4''] new_ReviewResult)
     = [mk_issue BLOCKING SECURITY ''a.py'' None ''t2'' ''d2'',
        mk_issue BLOCKING QUALITY ''b.py'' (Some 1) ''t4'' ''d4'']
   \<and> total_issues (add_issues [mk_issue WARNING QUALITY ''a.py'' (Some 3) ''t1'' ''d1'',
                         mk_issue BLOCKING SECURITY ''a.py'' None ''t2'' ''d2'',
                         mk_issue NITPICK PATTERN ''b.py'' None ''t3'' ''d3'',
                         mk_issue BLOCKING QUALITY ''b.py'' (Some 1) ''t4'' ''d4''] new_ReviewResult) = 4"
  using review_result_partition [of "[mk_issue WARNING QUALITY ''a.py'' (Some 3) ''t1'' ''d1'',
                         mk_issue BLOCKING SECURITY ''a.py'' None ''t2'' ''d2'',
                         mk_issue NITPICK PATTERN ''b.py'' None ''t3'' ''d3'',
                         mk_issue BLOCKING QUALITY ''b.py'' (Some 1) ''t4'' ''d4'']" new_ReviewResult]
  by (simp add: mk_issue_def new_ReviewResult_def)

section \<open>The quality assessor\<close>

text \<open>
  Claim C1. \<^verbatim>\<open>_assess_quality_tier\<close> changes nothing but the tier, and the tier is the
  specification's ordered table applied to whether there is a blocking issue, whether
  \<^verbatim>\<open>tests/\<close> exists, the coverage percentage and the number of warnings: blocking gives
  "Below Bronze"; otherwise no tests or coverage below 60 gives "Bronze (needs testing)";
  otherwise coverage of at least 80 and no warning gives "Gold"; otherwise coverage of at
  least 60 gives "Silver"; otherwise "Bronze". In particular coverage 85 with no warning
  gives "Gold", coverage 70 with one warning "Silver", coverage 50 "Bronze (needs
  testing)", and any blocking issue "Below Bronze".
\<close>

theorem quality_tier_decision_table:
  "result (assess_quality_tier w self)
     = (result self)\<lparr>quality_tier :=
          tier_table (has_blocking_issues (result self)) (tests_exists w)
            (coverage_percent (result self)) (length (warnings (result self)))\<rparr>
   \<and> root_path (assess_quality_tier w self) = root_path self
   \<and> sys_stderr (assess_quality_tier w self) = sys_stderr self
   \<and> (has_blocking_issues (result self)
        \<longrightarrow> quality_tier (result (assess_quality_tier w self)) = ''Below Bronze'')
   \<and> (\<not> has_blocking_issues (result self) \<and> (\<not> tests_exists w \<or> float_lt (coverage_percent (result self)) 60)
        \<longrightarrow> quality_tier (result (assess_quality_tier w self)) = ''Bronze (needs testing)'')
   \<and> (\<not> has_blocking_issues (result self) \<and> tests_exists w \<and> \<not> float_lt (coverage_percent (result self)) 60
        \<and> float_ge (coverage_percent (result self)) 80 \<and> length (warnings (result self)) = 0
        \<longrightarrow> quality_tier (result (assess_quality_tier w self)) = ''Gold'')
   \<and> (\<not> has_blocking_issues (result self) \<and> tests_exists w \<and> \<not> float_lt (coverage_percent (result self)) 60
        \<and> \<not> (float_ge (coverage_percent (result self)) 80 \<and> length (warnings (result self)) = 0)
        \<and> float_ge (coverage_percent (result self)) 60
        \<longrightarrow> quality_tier (result (assess_quality_tier w self)) = ''Silver'')
   \<and> (\<not> has_blocking_issues (result self) \<and> tests_exists w \<and> \<not> float_lt (coverage_percent (result self)) 60
        \<and> \<not> (float_ge (coverage_percent (result self)) 80 \<and> length (warnings (result self)) = 0)
        \<and> \<not> float_ge (coverage_percent (result self)) 60
        \<longrightarrow> quality_tier (result (assess_quality_tier w self)) = ''Bronze'')
   \<and> (blocking (result self) = [] \<and> tests_exists w \<and> coverage_percent (result self) = Finite 85
        \<and> warnings (result self) = []
        \<longrightarrow> quality_tier (result (assess_quality_tier w self)) = ''Gold'')
   \<and> (blocking (result self) = [] \<and> tests_exists w \<and> coverage_percent (result self) = Finite 70
        \<and> length (warnings (result self)) = 1
        \<longrightarrow> quality_tier (result (assess_quality_tier w self)) = ''Silver'')
   \<and> (blocking (result self) = [] \<and> coverage_percent (result self) = Finite 50
        \<longrightarrow> quality_tier (result (assess_quality_tier w self)) = ''Bronze (needs testing)'')
   \<and> (blocking (result self) \<noteq> []
        \<longrightarrow> quality_tier (result (assess_quality_tier w self)) = ''Below Bronze'')"
  by (simp add: assess_quality_tier_def tier_table_def has_blocking_issues_def Let_def)

theorem quality_tier_decision_table_witness:
  "quality_tier (result (assess_quality_tier quiet_world
      ((new_CodeReviewer ''.'')\<lparr>result := new_ReviewResult\<lparr>coverage_percent := Finite 85\<rparr>\<rparr>))) = ''Gold''
   \<and> quality_tier (result (assess_quality_tier quiet_world
      ((new_CodeReviewer ''.'')\<lparr>result := new_ReviewResult\<lparr>coverage_percent := Finite 70, warnings := [linting_issue]\<rparr>\<rparr>))) = ''Silver''
   \<and> quality_tier (result (assess_quality_tier quiet_world
      ((new_CodeReviewer ''.'')\<lparr>result := new_ReviewResult\<lparr>coverage_percent := Finite 50\<rparr>\<rparr>))) = ''Bronze (needs testing)''
   \<and> quality_tier (result (assess_quality_tier quiet_world
      ((new_CodeReviewer ''.'')\<lparr>result := new_ReviewResult\<lparr>coverage_percent := Finite 100, blocking := [eval_issue ''a.py'']\<rparr>\<rparr>))) = ''Below Bronze''"
  using quality_tier_decision_table [of quiet_world
      "(new_CodeReviewer ''.'')\<lparr>result := new_ReviewResult\<lparr>coverage_percent := Finite 85\<rparr>\<rparr>"]
    quality_tier_decision_table [of quiet_world
      "(new_CodeReviewer ''.'')\<lparr>result := new_ReviewResult\<lparr>coverage_percent := Finite 70, warnings := [linting_issue]\<rparr>\<rparr>"]
    quality_tier_decision_table [of quiet_world
      "(new_CodeReviewer ''.'')\<lparr>result := new_ReviewResult\<lparr>coverage_percent := Finite 50\<rparr>\<rparr>"]
    quality_tier_decision_table [of quiet_world
      "(new_CodeReviewer ''.'')\<lparr>result := new_ReviewResult\<lparr>coverage_percent := Finite 100, blocking := [eval_issue ''a.py'']\<rparr>\<rparr>"]
  by (simp add: new_CodeReviewer_def new_ReviewResult_def quiet_world_def has_blocking_issues_def
      tier_table_def)

text \<open>
  On a state taken by itself, the last rule of the table is reached exactly when there is no
  blocking issue, \<^verbatim>\<open>tests/\<close> exists and the coverage percentage is NaN, for which every
  comparison is false.
\<close>

lemma plain_bronze_iff_nan:
  "(quality_tier (result (assess_quality_tier w self)) = ''Bronze'')
     = (\<not> has_blocking_issues (result self) \<and> tests_exists w \<and> coverage_percent (result self) = NaN)"
proof (cases "coverage_percent (result self)")
  case (Finite x)
  then show ?thesis by (simp add: assess_quality_tier_def Let_def)
next
  case PosInf
  then show ?thesis by (simp add: assess_quality_tier_def Let_def)
next
  case NegInf
  then show ?thesis by (simp add: assess_quality_tier_def Let_def)
next
  case NaN
  then show ?thesis by (simp add: assess_quality_tier_def Let_def)
qed

section \<open>The detectors\<close>

lemma emit_fields [simp]:
  "root_path (emit i s) = root_path s"
  "sys_stderr (emit i s) = sys_stderr s"
  "positives (result (emit i s)) = positives (result s)"
  "coverage_percent (result (emit i s)) = coverage_percent (result s)"
  "quality_tier (result (emit i s)) = quality_tier (result s)"
  "files_reviewed (result (emit i s)) = files_reviewed (result s)"
  by (simp_all add: emit_def add_issue_def)

lemma emit_blocking:
  "severity i = BLOCKING \<Longrightarrow> blocking (result (emit i s)) = blocking (result s) @ [i]"
  "severity i = BLOCKING \<Longrightarrow> warnings (result (emit i s)) = warnings (result s)"
  "severity i = BLOCKING \<Longrightarrow> nitpicks (result (emit i s)) = nitpicks (result s)"
  by (simp_all add: emit_def add_issue_def)

lemma emit_warning:
  "severity i = WARNING \<Longrightarrow> blocking (result (emit i s)) = blocking (result s)"
  "severity i = WARNING \<Longrightarrow> warnings (result (emit i s)) = warnings (result s) @ [i]"
  "severity i = WARNING \<Longrightarrow> nitpicks (result (emit i s)) = nitpicks (result s)"
  by (simp_all add: emit_def add_issue_def)

lemma add_positive_fields [simp]:
  "root_path (add_positive n s) = root_path s"
  "sys_stderr (add_positive n s) = sys_stderr s"
  "blocking (result (add_positive n s)) = blocking (result s)"
  "warnings (result (add_positive n s)) = warnings (result s)"
  "nitpicks (result (add_positive n s)) = nitpicks (result s)"
  "positives (result (add_positive n s)) = positives (result s) @ [n]"
  "coverage_percent (result (add_positive n s)) = coverage_percent (result s)"
  "quality_tier (result (add_positive n s)) = quality_tier (result s)"
  "files_reviewed (result (add_positive n s)) = files_reviewed (result s)"
  by (simp_all add: add_positive_def)

lemma print_stderr_fields [simp]:
  "root_path (print_stderr m s) = root_path s"
  "sys_stderr (print_stderr m s) = sys_stderr s @ [m]"
  "result (print_stderr m s) = result s"
  by (simp_all add: print_stderr_def)

lemma issue_fields [simp]:
  "severity (hardcoded_credential_issue f n) = BLOCKING"
  "category (hardcoded_credential_issue f n) = SECURITY"
  "line (hardcoded_credential_issue f n) = Some n"
  "issue_file (hardcoded_credential_issue f n) = f"
  "severity (sql_injection_issue f) = BLOCKING"
  "category (sql_injection_issue f) = SECURITY"
  "line (sql_injection_issue f) = None"
  "severity (eval_issue f) = BLOCKING"
  "category (eval_issue f) = SECURITY"
  "line (eval_issue f) = None"
  "severity (shell_injection_issue f) = BLOCKING"
  "category (shell_injection_issue f) = SECURITY"
  "line (shell_injection_issue f) = None"
  "severity (blocking_io_issue f) = BLOCKING"
  "category (blocking_io_issue f) = ASYNC"
  "severity (blocking_sleep_issue f) = BLOCKING"
  "category (blocking_sleep_issue f) = ASYNC"
  "severity (syntax_error_issue f lno msg) = BLOCKING"
  "category (syntax_error_issue f lno msg) = QUALITY"
  "line (syntax_error_issue f lno msg) = lno"
  "description (syntax_error_issue f lno msg) = ''Python syntax error: '' @ msg"
  by (simp_all add: hardcoded_credential_issue_def sql_injection_issue_def eval_issue_def
      shell_injection_issue_def blocking_io_issue_def blocking_sleep_issue_def
      syntax_error_issue_def mk_issue_def)

lemma hardcoded_loop_blocking:
  "blocking (result (hardcoded_loop f i ls s)) = blocking (result s) @ credential_issues f i ls"
  by (induction ls arbitrary: i s) (simp_all add: emit_blocking)

lemma hardcoded_loop_frame [simp]:
  "warnings (result (hardcoded_loop f i ls s)) = warnings (result s)"
  "nitpicks (result (hardcoded_loop f i ls s)) = nitpicks (result s)"
  "positives (result (hardcoded_loop f i ls s)) = positives (result s)"
  "coverage_percent (result (hardcoded_loop f i ls s)) = coverage_percent (result s)"
  "root_path (hardcoded_loop f i ls s) = root_path s"
  "sys_stderr (hardcoded_loop f i ls s) = sys_stderr s"
  by (induction ls arbitrary: i s) (simp_all add: emit_blocking)

lemma credential_issues_later:
  "n < i \<Longrightarrow> filter (\<lambda>x. line x = Some n) (credential_issues f i ls) = []"
  by (induction ls arbitrary: i) simp_all

lemma credential_issues_at:
  "k < length ls \<Longrightarrow>
   filter (\<lambda>x. line x = Some (i + int k)) (credential_issues f i ls)
     = (if re_search hardcoded_key (ls ! k) \<and> \<not> str_in ''test'' (lower f)
           \<and> \<not> startswith (strip (ls ! k)) ''#''
        then [hardcoded_credential_issue f (i + int k)] else [])"
proof (induction ls arbitrary: i k)
  case Nil
  then show ?case by simp
next
  case (Cons l ls)
  show ?case
  proof (cases k)
    case 0
    then show ?thesis by (simp add: credential_issues_later)
  next
    case (Suc j)
    with Cons.prems have j: "j < length ls" by simp
    have eq: "i + int k = (i + 1) + int j" using Suc by simp
    have ne: "i \<noteq> i + 1 + int j" by simp
    show ?thesis
      using Cons.IH [OF j, of "i + 1"] Suc ne by (simp add: eq add.assoc)
  qed
qed

lemma credential_issues_test_path:
  "str_in ''test'' (lower f) \<Longrightarrow> credential_issues f i ls = []"
  by (induction ls arbitrary: i) simp_all

lemma check_security_issues_blocking:
  "blocking (result (check_security_issues f content lines self))
     = blocking (result self) @ credential_issues f 1 lines
       @ (if re_search sql_injection content then [sql_injection_issue f] else [])
       @ (if re_search_b False eval_usage content then [eval_issue f] else [])
       @ (if re_search shell_injection content then [shell_injection_issue f] else [])"
  by (simp add: check_security_issues_def Let_def emit_blocking hardcoded_loop_blocking)

lemma check_security_issues_frame [simp]:
  "warnings (result (check_security_issues f content lines s)) = warnings (result s)"
  "nitpicks (result (check_security_issues f content lines s)) = nitpicks (result s)"
  "positives (result (check_security_issues f content lines s)) = positives (result s)"
  "coverage_percent (result (check_security_issues f content lines s)) = coverage_percent (result s)"
  "root_path (check_security_issues f content lines s) = root_path s"
  "sys_stderr (check_security_issues f content lines s) = sys_stderr s"
  by (simp_all add: check_security_issues_def Let_def emit_blocking)

text \<open>
  Claim C6. For line number \<open>k + 1\<close> of a file, \<^verbatim>\<open>_check_security_issues\<close> adds to the
  blocking bucket exactly one issue carrying that line number, of category security, when
  the line matches the hardcoded-credential pattern, the path (in lower case) does not
  contain \<^verbatim>\<open>test\<close> and the line, stripped of surrounding white space, does not begin with
  \<^verbatim>\<open>#\<close>; otherwise it adds none carrying that number. In a file whose path
  contains \<^verbatim>\<open>test\<close> no issue carrying any line number is added. The other rules of the
  function add issues without a line number, and nothing is added to the other buckets.
\<close>

theorem hardcoded_credential_rule:
  assumes "k < length lines"
  shows "filter (\<lambda>i. line i = Some (int k + 1))
           (blocking (result (check_security_issues f content lines self)))
         = filter (\<lambda>i. line i = Some (int k + 1)) (blocking (result self))
           @ (if re_search hardcoded_key (lines ! k) \<and> \<not> str_in ''test'' (lower f)
                 \<and> \<not> startswith (strip (lines ! k)) ''#''
              then [hardcoded_credential_issue f (int k + 1)] else [])
       \<and> (str_in ''test'' (lower f) \<longrightarrow>
            filter (\<lambda>i. line i \<noteq> None) (blocking (result (check_security_issues f content lines self)))
            = filter (\<lambda>i. line i \<noteq> None) (blocking (result self)))
       \<and> warnings (result (check_security_issues f content lines self)) = warnings (result self)
       \<and> nitpicks (result (check_security_issues f content lines self)) = nitpicks (result self)
       \<and> severity (hardcoded_credential_issue f (int k + 1)) = BLOCKING
       \<and> category (hardcoded_credential_issue f (int k + 1)) = SECURITY
       \<and> line (hardcoded_credential_issue f (int k + 1)) = Some (int k + 1)"
proof -
  have at: "filter (\<lambda>x. line x = Some (int k + 1)) (credential_issues f 1 lines)
     = (if re_search hardcoded_key (lines ! k) \<and> \<not> str_in ''test'' (lower f)
           \<and> \<not> startswith (strip (lines ! k)) ''#''
        then [hardcoded_credential_issue f (int k + 1)] else [])"
    using credential_issues_at [OF assms, of 1 f] by (simp add: add.commute)
  have first: "filter (\<lambda>i. line i = Some (int k + 1))
           (blocking (result (check_security_issues f content lines self)))
         = filter (\<lambda>i. line i = Some (int k + 1)) (blocking (result self))
           @ (if re_search hardcoded_key (lines ! k) \<and> \<not> str_in ''test'' (lower f)
                 \<and> \<not> startswith (strip (lines ! k)) ''#''
              then [hardcoded_credential_issue f (int k + 1)] else [])"
    unfolding check_security_issues_blocking filter_append at by simp
  have second: "str_in ''test'' (lower f) \<longrightarrow>
            filter (\<lambda>i. line i \<noteq> None) (blocking (result (check_security_issues f content lines self)))
            = filter (\<lambda>i. line i \<noteq> None) (blocking (result self))"
    by (simp add: check_security_issues_blocking credential_issues_test_path)
  show ?thesis using first second by simp
qed

theorem hardcoded_credential_rule_witness:
  "filter (\<lambda>i. line i = Some 2)
     (blocking (result (check_security_issues ''custom_components/demo/api.py'' sample_content
        (split newline sample_content) (new_CodeReviewer ''.''))))
     = [hardcoded_credential_issue ''custom_components/demo/api.py'' 2]
   \<and> filter (\<lambda>i. line i = Some 3)
     (blocking (result (check_security_issues ''custom_components/demo/api.py'' sample_content
        (split newline sample_content) (new_CodeReviewer ''.'')))) = []
   \<and> filter (\<lambda>i. line i \<noteq> None)
     (blocking (result (check_security_issues ''tests/test_api.py'' sample_content
        (split newline sample_content) (new_CodeReviewer ''.'')))) = []"
proof -
  have ls: "split newline sample_content = [''import os'', credential_line, commented_line]"
    by code_simp
  have m1: "re_search hardcoded_key credential_line" by code_simp
  have m2: "re_search hardcoded_key commented_line" by code_simp
  have c1: "\<not> startswith (strip credential_line) ''#''" by code_simp
  have c2: "startswith (strip commented_line) ''#''" by code_simp
  have p1: "\<not> str_in ''test'' (lower ''custom_components/demo/api.py'')" by code_simp
  have p2: "str_in ''test'' (lower ''tests/test_api.py'')" by code_simp
  show ?thesis
    using hardcoded_credential_rule [of 1 "split newline sample_content"
        "''custom_components/demo/api.py''" sample_content "new_CodeReviewer ''.''"]
      hardcoded_credential_rule [of 2 "split newline sample_content"
        "''custom_components/demo/api.py''" sample_content "new_CodeReviewer ''.''"]
      hardcoded_credential_rule [of 0 "split newline sample_content"
        "''tests/test_api.py''" sample_content "new_CodeReviewer ''.''"]
      m1 m2 c1 c2 p1 p2
    by (simp add: ls new_CodeReviewer_def new_ReviewResult_def)
qed

lemma check_ha_patterns_blocking:
  "blocking (result (check_ha_patterns f content lines self))
     = blocking (result self)
       @ (if str_in ''async def'' content \<and> re_search requests_in_async content
          then [blocking_io_issue f] else [])
       @ (if str_in ''async def'' content \<and> re_search blocking_sleep content
          then [blocking_sleep_issue f] else [])"
  by (simp add: check_ha_patterns_def Let_def emit_blocking)

lemma check_ha_patterns_frame [simp]:
  "warnings (result (check_ha_patterns f content lines s)) = warnings (result s)"
  "nitpicks (result (check_ha_patterns f content lines s)) = nitpicks (result s)"
  "positives (result (check_ha_patterns f content lines s)) = positives (result s)"
  "coverage_percent (result (check_ha_patterns f content lines s)) = coverage_percent (result s)"
  "root_path (check_ha_patterns f content lines s) = root_path s"
  "sys_stderr (check_ha_patterns f content lines s) = sys_stderr s"
  by (simp_all add: check_ha_patterns_def Let_def emit_blocking)

lemma credential_issues_no_quality:
  "filter (\<lambda>i. category i = QUALITY) (credential_issues f i ls) = []"
  by (induction ls arbitrary: i) simp_all

lemma text_checks_no_quality:
  "filter (\<lambda>i. category i = QUALITY)
     (blocking (result (check_ha_patterns f content lines (check_security_issues f content lines self))))
   = filter (\<lambda>i. category i = QUALITY) (blocking (result self))"
  by (simp add: check_ha_patterns_blocking check_security_issues_blocking credential_issues_no_quality)

lemma syntax_error_case:
  assumes "read_text a = Inr content" and "ast_parse w content = SyntaxError lno msg"
  shows "review_python_file w a self
           = emit (syntax_error_issue (path a) lno msg)
               (check_ha_patterns (path a) content (split newline content)
                  (check_security_issues (path a) content (split newline content) self))
       \<and> filter (\<lambda>i. category i = QUALITY) (blocking (result (review_python_file w a self)))
           = filter (\<lambda>i. category i = QUALITY) (blocking (result self))
             @ [syntax_error_issue (path a) lno msg]
       \<and> warnings (result (review_python_file w a self)) = warnings (result self)
       \<and> nitpicks (result (review_python_file w a self)) = nitpicks (result self)
       \<and> sys_stderr (review_python_file w a self) = sys_stderr self
       \<and> severity (syntax_error_issue (path a) lno msg) = BLOCKING
       \<and> category (syntax_error_issue (path a) lno msg) = QUALITY
       \<and> line (syntax_error_issue (path a) lno msg) = lno
       \<and> description (syntax_error_issue (path a) lno msg) = ''Python syntax error: '' @ msg"
proof -
  have run: "review_python_file w a self
           = emit (syntax_error_issue (path a) lno msg)
               (check_ha_patterns (path a) content (split newline content)
                  (check_security_issues (path a) content (split newline content) self))"
    using assms by (simp add: review_python_file_def Let_def)
  show ?thesis
    unfolding run by (simp add: emit_blocking text_checks_no_quality)
qed

lemma parse_raises_case:
  assumes "read_text a = Inr content" and "ast_parse w content = ParseRaises e"
  shows "review_python_file w a self
           = print_stderr (error_reviewing (path a) e)
               (check_ha_patterns (path a) content (split newline content)
                  (check_security_issues (path a) content (split newline content) self))
       \<and> filter (\<lambda>i. category i = QUALITY) (blocking (result (review_python_file w a self)))
           = filter (\<lambda>i. category i = QUALITY) (blocking (result self))
       \<and> warnings (result (review_python_file w a self)) = warnings (result self)
       \<and> nitpicks (result (review_python_file w a self)) = nitpicks (result self)
       \<and> sys_stderr (review_python_file w a self) = sys_stderr self @ [error_reviewing (path a) e]"
proof -
  have run: "review_python_file w a self
           = print_stderr (error_reviewing (path a) e)
               (check_ha_patterns (path a) content (split newline content)
                  (check_security_issues (path a) content (split newline content) self))"
    using assms by (simp add: review_python_file_def Let_def)
  show ?thesis
    unfolding run by (simp add: text_checks_no_quality)
qed

text \<open>
  Claim C7, as stated, fails: \<^verbatim>\<open>ast.parse\<close> can fail with an exception that is not a
  \<^verbatim>\<open>SyntaxError\<close> (here \<^verbatim>\<open>RecursionError\<close>, on an expression nested too deeply). Only
  \<^verbatim>\<open>SyntaxError\<close> is turned into an issue; the other exceptions reach the outer handler
  \<^verbatim>\<open>except Exception\<close>, which prints a line and adds no issue of category quality.
\<close>

theorem parse_failure_without_issue:
  "read_text deep_file = Inr deep_expression
   \<and> ast_parse overflowing_world deep_expression
       = ParseRaises (Exn RecursionError ''maximum recursion depth exceeded during ast construction'')
   \<and> filter (\<lambda>i. category i = QUALITY)
       (blocking (result (review_python_file overflowing_world deep_file (new_CodeReviewer ''.'')))) = []
   \<and> warnings (result (review_python_file overflowing_world deep_file (new_CodeReviewer ''.''))) = []
   \<and> nitpicks (result (review_python_file overflowing_world deep_file (new_CodeReviewer ''.''))) = []
   \<and> sys_stderr (review_python_file overflowing_world deep_file (new_CodeReviewer ''.''))
       = [''Error reviewing custom_components/demo/deep.py: maximum recursion depth exceeded during ast construction'']"
proof -
  have h1: "read_text deep_file = Inr deep_expression"
    by (simp add: deep_file_def)
  have h2: "ast_parse overflowing_world deep_expression
       = ParseRaises (Exn RecursionError ''maximum recursion depth exceeded during ast construction'')"
    by (simp add: overflowing_world_def)
  have p: "path deep_file = ''custom_components/demo/deep.py''"
    by (simp add: deep_file_def)
  have b: "blocking (result (new_CodeReviewer ''.'')) = []" "warnings (result (new_CodeReviewer ''.'')) = []"
    "nitpicks (result (new_CodeReviewer ''.'')) = []" "sys_stderr (new_CodeReviewer ''.'') = []"
    by (simp_all add: new_CodeReviewer_def new_ReviewResult_def)
  note t = parse_raises_case [OF h1 h2, of "new_CodeReviewer ''.''"]
  from t have q: "filter (\<lambda>i. category i = QUALITY)
       (blocking (result (review_python_file overflowing_world deep_file (new_CodeReviewer ''.''))))
       = filter (\<lambda>i. category i = QUALITY) (blocking (result (new_CodeReviewer ''.'')))"
    by blast
  from t have r: "warnings (result (review_python_file overflowing_world deep_file (new_CodeReviewer ''.'')))
       = warnings (result (new_CodeReviewer ''.''))"
    by blast
  from t have n: "nitpicks (result (review_python_file overflowing_world deep_file (new_CodeReviewer ''.'')))
       = nitpicks (result (new_CodeReviewer ''.''))"
    by blast
  from t have v: "sys_stderr (review_python_file overflowing_world deep_file (new_CodeReviewer ''.''))
       = sys_stderr (new_CodeReviewer ''.'') @ [error_reviewing (path deep_file)
           (Exn RecursionError ''maximum recursion depth exceeded during ast construction'')]"
    by blast
  show ?thesis
    unfolding q r n v b p using h1 h2 by (simp add: error_reviewing_def)
qed

text \<open>
  Claim C7, amended. When \<^verbatim>\<open>ast.parse\<close> raises \<^verbatim>\<open>SyntaxError\<close> on the text of a file,
  \<^verbatim>\<open>_review_python_file\<close> is the two text checks followed by one added issue: that issue
  is blocking, of category quality, and carries the parser's line number and message, and it
  is the only issue of category quality added. When \<^verbatim>\<open>ast.parse\<close> raises another
  exception, the function is the two text checks followed by one line on \<^verbatim>\<open>sys.stderr\<close>,
  and no issue of category quality is added. In both cases the syntax-tree check does not
  run: nothing is added to the warnings, the bucket of every issue of that check.
\<close>

theorem syntax_error_one_blocking_issue:
  "(read_text a = Inr content \<and> ast_parse w content = SyntaxError lno msg \<longrightarrow>
       review_python_file w a self
           = emit (syntax_error_issue (path a) lno msg)
               (check_ha_patterns (path a) content (split newline content)
                  (check_security_issues (path a) content (split newline content) self))
       \<and> filter (\<lambda>i. category i = QUALITY) (blocking (result (review_python_file w a self)))
           = filter (\<lambda>i. category i = QUALITY) (blocking (result self))
             @ [syntax_error_issue (path a) lno msg]
       \<and> warnings (result (review_python_file w a self)) = warnings (result self)
       \<and> nitpicks (result (review_python_file w a self)) = nitpicks (result self)
       \<and> sys_stderr (review_python_file w a self) = sys_stderr self)
   \<and> severity (syntax_error_issue (path a) lno msg) = BLOCKING
   \<and> category (syntax_error_issue (path a) lno msg) = QUALITY
   \<and> line (syntax_error_issue (path a) lno msg) = lno
   \<and> description (syntax_error_issue (path a) lno msg) = ''Python syntax error: '' @ msg
   \<and> (read_text a = Inr content \<and> ast_parse w content = ParseRaises e \<longrightarrow>
       review_python_file w a self
           = print_stderr (error_reviewing (path a) e)
               (check_ha_patterns (path a) content (split newline content)
                  (check_security_issues (path a) content (split newline content) self))
       \<and> filter (\<lambda>i. category i = QUALITY) (blocking (result (review_python_file w a self)))
           = filter (\<lambda>i. category i = QUALITY) (blocking (result self))
       \<and> warnings (result (review_python_file w a self)) = warnings (result self)
       \<and> nitpicks (result (review_python_file w a self)) = nitpicks (result self)
       \<and> sys_stderr (review_python_file w a self) = sys_stderr self @ [error_reviewing (path a) e])"
proof -
  have syn: "read_text a = Inr content \<and> ast_parse w content = SyntaxError lno msg \<longrightarrow>
       review_python_file w a self
           = emit (syntax_error_issue (path a) lno msg)
               (check_ha_patterns (path a) content (split newline content)
                  (check_security_issues (path a) content (split newline content) self))
       \<and> filter (\<lambda>i. category i = QUALITY) (blocking (result (review_python_file w a self)))
           = filter (\<lambda>i. category i = QUALITY) (blocking (result self))
             @ [syntax_error_issue (path a) lno msg]
       \<and> warnings (result (review_python_file w a self)) = warnings (result self)
       \<and> nitpicks (result (review_python_file w a self)) = nitpicks (result self)
       \<and> sys_stderr (review_python_file w a self) = sys_stderr self"
    using syntax_error_case [of a content w lno msg self] by blast
  have other: "read_text a = Inr content \<and> ast_parse w content = ParseRaises e \<longrightarrow>
       review_python_file w a self
           = print_stderr (error_reviewing (path a) e)
               (check_ha_patterns (path a) content (split newline content)
                  (check_security_issues (path a) content (split newline content) self))
       \<and> filter (\<lambda>i. category i = QUALITY) (blocking (result (review_python_file w a self)))
           = filter (\<lambda>i. category i = QUALITY) (blocking (result self))
       \<and> warnings (result (review_python_file w a self)) = warnings (result self)
       \<and> nitpicks (result (review_python_file w a self)) = nitpicks (result self)
       \<and> sys_stderr (review_python_file w a self) = sys_stderr self @ [error_reviewing (path a) e]"
    using parse_raises_case [of a content w e self] by blast
  have fields: "severity (syntax_error_issue (path a) lno msg) = BLOCKING
   \<and> category (syntax_error_issue (path a) lno msg) = QUALITY
   \<and> line (syntax_error_issue (path a) lno msg) = lno
   \<and> description (syntax_error_issue (path a) lno msg) = ''Python syntax error: '' @ msg"
    by simp
  show ?thesis using syn other fields by blast
qed

theorem syntax_error_one_blocking_issue_witness:
  "filter (\<lambda>i. category i = QUALITY)
     (blocking (result (review_python_file rejecting_world broken_file (new_CodeReviewer ''.''))))
     = [syntax_error_issue ''custom_components/demo/broken.py'' (Some 1) ''invalid syntax'']
   \<and> warnings (result (review_python_file rejecting_world broken_file (new_CodeReviewer ''.''))) = []
   \<and> sys_stderr (review_python_file overflowing_world deep_file (new_CodeReviewer ''.''))
       = [error_reviewing ''custom_components/demo/deep.py''
            (Exn RecursionError ''maximum recursion depth exceeded during ast construction'')]"
proof -
  have h1: "read_text broken_file = Inr (''def f(:'' @ [newline] @ ''    pass'')"
    by (simp add: broken_file_def)
  have h2: "ast_parse rejecting_world (''def f(:'' @ [newline] @ ''    pass'')
              = SyntaxError (Some 1) ''invalid syntax''"
    by (simp add: rejecting_world_def)
  have h3: "read_text deep_file = Inr deep_expression"
    by (simp add: deep_file_def)
  have h4: "ast_parse overflowing_world deep_expression
       = ParseRaises (Exn RecursionError ''maximum recursion depth exceeded during ast construction'')"
    by (simp add: overflowing_world_def)
  have p: "path broken_file = ''custom_components/demo/broken.py''"
    "path deep_file = ''custom_components/demo/deep.py''"
    by (simp_all add: broken_file_def deep_file_def)
  have b: "blocking (result (new_CodeReviewer ''.'')) = []" "warnings (result (new_CodeReviewer ''.'')) = []"
    "sys_stderr (new_CodeReviewer ''.'') = []"
    by (simp_all add: new_CodeReviewer_def new_ReviewResult_def)
  note t = syntax_error_one_blocking_issue [of broken_file "''def f(:'' @ [newline] @ ''    pass''"
      rejecting_world "Some 1" "''invalid syntax''" "new_CodeReviewer ''.''"]
  note u = syntax_error_one_blocking_issue [of deep_file deep_expression overflowing_world _ _
      "new_CodeReviewer ''.''"
      "Exn RecursionError ''maximum recursion depth exceeded during ast construction''"]
  from t h1 h2 have q: "filter (\<lambda>i. category i = QUALITY)
     (blocking (result (review_python_file rejecting_world broken_file (new_CodeReviewer ''.''))))
     = filter (\<lambda>i. category i = QUALITY) (blocking (result (new_CodeReviewer ''.'')))
             @ [syntax_error_issue (path broken_file) (Some 1) ''invalid syntax'']"
    by blast
  from t h1 h2 have r: "warnings (result (review_python_file rejecting_world broken_file (new_CodeReviewer ''.'')))
      = warnings (result (new_CodeReviewer ''.''))"
    by blast
  from u h3 h4 have v: "sys_stderr (review_python_file overflowing_world deep_file (new_CodeReviewer ''.''))
      = sys_stderr (new_CodeReviewer ''.'')
        @ [error_reviewing (path deep_file)
             (Exn RecursionError ''maximum recursion depth exceeded during ast construction'')]"
    by blast
  show ?thesis
    unfolding q r v b p by simp
qed

lemma more_issue_fields [simp]:
  "severity (missing_field_issue f fld) = BLOCKING"
  "category (missing_field_issue f fld) = QUALITY"
  "title (missing_field_issue f fld) = ''Missing Required Field: '' @ fld"
  "severity (config_flow_issue f) = WARNING"
  "category (config_flow_issue f) = PATTERN"
  "severity (invalid_json_issue f who e) = BLOCKING"
  "category (invalid_json_issue f who e) = QUALITY"
  "description (invalid_json_issue f who e) = who @ '' has invalid JSON: '' @ exn_str e"
  "severity linting_issue = WARNING"
  "severity (type_check_issue n) = WARNING"
  "category (type_check_issue n) = QUALITY"
  "title (type_check_issue n) = ''Type Check Errors ('' @ str_nat n @ '')''"
  "severity (coverage_below_target_issue shown) = WARNING"
  "category (coverage_below_target_issue shown) = TESTING"
  "title (coverage_below_target_issue shown) = ''Test Coverage Below Target''"
  "severity (insufficient_coverage_issue shown) = BLOCKING"
  "category (insufficient_coverage_issue shown) = TESTING"
  "title (insufficient_coverage_issue shown) = ''Insufficient Test Coverage''"
  "severity (missing_return_issue f nm lno) = WARNING"
  "severity (broad_except_issue f lno) = WARNING"
  by (simp_all add: missing_field_issue_def config_flow_issue_def invalid_json_issue_def
      linting_issue_def type_check_issue_def coverage_below_target_issue_def
      insufficient_coverage_issue_def missing_return_issue_def broad_except_issue_def mk_issue_def)





section \<open>The external tools\<close>

lemma run_type_checker_nonzero:
  assumes "subprocess_run w (mypy_call (root_path self)) = Inr res" and "returncode res \<noteq> 0"
  shows "run_type_checker w self
           = Inr (if error_count (stdout res) > 0
                  then emit (type_check_issue (error_count (stdout res))) self else self)"
  using assms by (simp add: run_type_checker_def)

text \<open>
  Claim C4, as stated, fails: when mypy exits with a status that is not zero and no line of
  its standard output contains \<^verbatim>\<open>error:\<close> (here status 2 and an empty output), the test
  \<^verbatim>\<open>if error_count > 0\<close> keeps the function from adding an issue.
\<close>

theorem type_checker_silent_failure:
  "run_type_checker (tool_world 2 '''') (new_CodeReviewer ''.'') = Inr (new_CodeReviewer ''.'')
   \<and> total_issues (result (new_CodeReviewer ''.'')) = 0"
proof -
  have "error_count '''' = 0" by code_simp
  then show ?thesis
    by (simp add: run_type_checker_def tool_world_def total_issues_def new_CodeReviewer_def
        new_ReviewResult_def)
qed

text \<open>
  Claim C4, amended. When mypy is found and exits with a status that is not zero: if at
  least one line of its standard output contains \<^verbatim>\<open>error:\<close>, exactly one issue is
  added, a warning whose title is \<^verbatim>\<open>Type Check Errors (n)\<close> with \<open>n\<close> the number of
  such lines; if no line does, nothing is added.
\<close>

theorem type_checker_warning_counts_errors:
  assumes "subprocess_run w (mypy_call (root_path self)) = Inr res" and "returncode res \<noteq> 0"
  shows "(error_count (stdout res) > 0 \<longrightarrow>
            run_type_checker w self = Inr (emit (type_check_issue (error_count (stdout res))) self)
            \<and> warnings (result (emit (type_check_issue (error_count (stdout res))) self))
                = warnings (result self) @ [type_check_issue (error_count (stdout res))]
            \<and> blocking (result (emit (type_check_issue (error_count (stdout res))) self))
                = blocking (result self)
            \<and> nitpicks (result (emit (type_check_issue (error_count (stdout res))) self))
                = nitpicks (result self)
            \<and> positives (result (emit (type_check_issue (error_count (stdout res))) self))
                = positives (result self))
       \<and> (error_count (stdout res) = 0 \<longrightarrow> run_type_checker w self = Inr self)
       \<and> error_count (stdout res) = length (filter (str_in ''error:'') (split newline (stdout res)))
       \<and> severity (type_check_issue (error_count (stdout res))) = WARNING
       \<and> title (type_check_issue (error_count (stdout res)))
           = ''Type Check Errors ('' @ str_nat (error_count (stdout res)) @ '')''"
  using run_type_checker_nonzero [OF assms]
  by (simp add: emit_warning error_count_def)

theorem type_checker_warning_counts_errors_witness:
  "run_type_checker (tool_world 1 mypy_output) (new_CodeReviewer ''.'')
     = Inr (emit (type_check_issue 2) (new_CodeReviewer ''.''))
   \<and> title (type_check_issue 2) = ''Type Check Errors (2)''"
proof -
  have r: "subprocess_run (tool_world 1 mypy_output) (mypy_call (root_path (new_CodeReviewer ''.'')))
             = Inr \<lparr>returncode = 1, stdout = mypy_output\<rparr>"
    by (simp add: tool_world_def)
  have nz: "returncode \<lparr>returncode = 1, stdout = mypy_output\<rparr> \<noteq> 0" by simp
  have n: "error_count mypy_output = 2" by code_simp
  have s: "str_nat 2 = ''2''" by code_simp
  note t = type_checker_warning_counts_errors [OF r nz]
  from t n have a: "run_type_checker (tool_world 1 mypy_output) (new_CodeReviewer ''.'')
     = Inr (emit (type_check_issue 2) (new_CodeReviewer ''.''))"
    by simp
  from t n s have b: "title (type_check_issue 2) = ''Type Check Errors (2)''"
    by simp
  show ?thesis using a b by simp
qed

lemma float_lt_not_ge: "float_lt p c \<Longrightarrow> c \<le> d \<Longrightarrow> \<not> float_ge p d"
  by (cases p) simp_all

text \<open>
  Claim C9. When pytest has run, the coverage report exists and gives the percentage
  \<open>p\<close>, \<^verbatim>\<open>_check_test_coverage\<close> records \<open>p\<close> as \<^verbatim>\<open>coverage_percent\<close> whatever its
  class, and adds exactly one thing: for \<open>p \<ge> 80\<close> a positive note; for
  \<open>60 \<le> p < 80\<close> one warning of category testing, "Test Coverage Below Target"; for
  \<open>p < 60\<close> one blocking issue of category testing, "Insufficient Test Coverage"
  (and the same for NaN, which fails both tests of the code).
\<close>

theorem coverage_classification:
  assumes "subprocess_run w (pytest_call (root_path self)) = Inr res"
    and "coverage_file_exists w" and "percent_covered w = Inr p"
  shows "coverage_percent (result (check_test_coverage w self)) = p
       \<and> (float_ge p 80 \<longrightarrow>
            positives (result (check_test_coverage w self))
              = positives (result self)
                @ [check_mark @ '' Excellent test coverage: '' @ format_1f w p @ ''%'']
            \<and> blocking (result (check_test_coverage w self)) = blocking (result self)
            \<and> warnings (result (check_test_coverage w self)) = warnings (result self)
            \<and> nitpicks (result (check_test_coverage w self)) = nitpicks (result self))
       \<and> (float_ge p 60 \<and> float_lt p 80 \<longrightarrow>
            warnings (result (check_test_coverage w self))
              = warnings (result self) @ [coverage_below_target_issue (format_1f w p)]
            \<and> blocking (result (check_test_coverage w self)) = blocking (result self)
            \<and> nitpicks (result (check_test_coverage w self)) = nitpicks (result self)
            \<and> positives (result (check_test_coverage w self)) = positives (result self))
       \<and> (float_lt p 60 \<longrightarrow>
            blocking (result (check_test_coverage w self))
              = blocking (result self) @ [insufficient_coverage_issue (format_1f w p)]
            \<and> warnings (result (check_test_coverage w self)) = warnings (result self)
            \<and> nitpicks (result (check_test_coverage w self)) = nitpicks (result self)
            \<and> positives (result (check_test_coverage w self)) = positives (result self))
       \<and> (p = NaN \<longrightarrow>
            blocking (result (check_test_coverage w self))
              = blocking (result self) @ [insufficient_coverage_issue (format_1f w p)])
       \<and> length (positives (result (check_test_coverage w self)))
           + total_issues (result (check_test_coverage w self))
           = length (positives (result self)) + total_issues (result self) + 1
       \<and> severity (coverage_below_target_issue (format_1f w p)) = WARNING
       \<and> category (coverage_below_target_issue (format_1f w p)) = TESTING
       \<and> title (coverage_below_target_issue (format_1f w p)) = ''Test Coverage Below Target''
       \<and> severity (insufficient_coverage_issue (format_1f w p)) = BLOCKING
       \<and> category (insufficient_coverage_issue (format_1f w p)) = TESTING
       \<and> title (insufficient_coverage_issue (format_1f w p)) = ''Insufficient Test Coverage''"
proof -
  let ?s1 = "self\<lparr>result := (result self)\<lparr>coverage_percent := p\<rparr>\<rparr>"
  have run: "check_test_coverage w self
      = (if float_ge p 80
         then add_positive (check_mark @ '' Excellent test coverage: '' @ format_1f w p @ ''%'') ?s1
         else if float_ge p 60 then emit (coverage_below_target_issue (format_1f w p)) ?s1
         else emit (insufficient_coverage_issue (format_1f w p)) ?s1)"
    using assms by (simp add: check_test_coverage_def Let_def)
  have hi: "float_lt p 80 \<Longrightarrow> \<not> float_ge p 80"
    using float_lt_not_ge [of p 80 80] by simp
  have lo: "float_lt p 60 \<Longrightarrow> \<not> float_ge p 60 \<and> \<not> float_ge p 80"
    using float_lt_not_ge [of p 60 60] float_lt_not_ge [of p 60 80] by simp
  show ?thesis
  proof (cases "float_ge p 80")
    case True
    with lo hi show ?thesis unfolding run by (auto simp add: total_issues_def)
  next
    case False
    show ?thesis
    proof (cases "float_ge p 60")
      case True
      with False lo show ?thesis
        unfolding run by (auto simp add: total_issues_def emit_warning)
    next
      case g: False
      with False show ?thesis
        unfolding run by (auto simp add: total_issues_def emit_blocking)
    qed
  qed
qed

theorem coverage_classification_witness:
  "coverage_percent (result (check_test_coverage (coverage_world (Finite 72.5) ''72.5'') (new_CodeReviewer ''.'')))
     = Finite 72.5
   \<and> warnings (result (check_test_coverage (coverage_world (Finite 72.5) ''72.5'') (new_CodeReviewer ''.'')))
     = [coverage_below_target_issue ''72.5'']
   \<and> blocking (result (check_test_coverage (coverage_world (Finite 72.5) ''72.5'') (new_CodeReviewer ''.''))) = []"
proof -
  let ?w = "coverage_world (Finite 72.5) ''72.5''"
  have r: "subprocess_run ?w (pytest_call (root_path (new_CodeReviewer ''.'')))
             = Inr \<lparr>returncode = 0, stdout = ''''\<rparr>"
    by (simp add: coverage_world_def tool_world_def)
  have e: "coverage_file_exists ?w" by (simp add: coverage_world_def)
  have p: "percent_covered ?w = Inr (Finite 72.5)" by (simp add: coverage_world_def)
  have f: "format_1f ?w (Finite 72.5) = ''72.5''" by (simp add: coverage_world_def)
  have c: "float_ge (Finite 72.5) 60 \<and> float_lt (Finite 72.5) 80" by simp
  have b: "blocking (result (new_CodeReviewer ''.'')) = []" "warnings (result (new_CodeReviewer ''.'')) = []"
    by (simp_all add: new_CodeReviewer_def new_ReviewResult_def)
  note t = coverage_classification [OF r e p]
  from t have t1: "coverage_percent (result (check_test_coverage ?w (new_CodeReviewer ''.''))) = Finite 72.5"
    by blast
  from t c have t2: "warnings (result (check_test_coverage ?w (new_CodeReviewer ''.'')))
              = warnings (result (new_CodeReviewer ''.'')) @ [coverage_below_target_issue (format_1f ?w (Finite 72.5))]"
    by blast
  from t c have t3: "blocking (result (check_test_coverage ?w (new_CodeReviewer ''.'')))
      = blocking (result (new_CodeReviewer ''.''))"
    by blast
  show ?thesis using t1 t2 t3 unfolding f b by simp
qed

section \<open>The coverage percentage through a run\<close>

lemma check_node_coverage [simp]:
  "coverage_percent (result (check_node f n s)) = coverage_percent (result s)"
proof (cases n)
  case (Node k cs)
  then show ?thesis by (cases k) (simp_all add: Let_def)
qed

lemma check_nodes_coverage [simp]:
  "coverage_percent (result (check_nodes f ns s)) = coverage_percent (result s)"
  by (induction ns arbitrary: s) simp_all

lemma review_python_file_coverage [simp]:
  "coverage_percent (result (review_python_file w a s)) = coverage_percent (result s)"
  by (simp add: review_python_file_def check_ast_patterns_def Let_def
      split: sum.splits parse_result.splits)

lemma required_loop_coverage:
  "required_loop f m flds s = Inr s' \<Longrightarrow> coverage_percent (result s') = coverage_percent (result s)"
proof (induction flds arbitrary: s)
  case Nil
  then show ?case by simp
next
  case (Cons fld flds)
  from Cons.prems obtain present where p: "py_in fld m = Inr present"
    by (cases "py_in fld m") simp_all
  from Cons.prems p
  have "required_loop f m flds (if \<not> present then emit (missing_field_issue f fld) s else s) = Inr s'"
    by simp
  from Cons.IH [OF this] show ?case by (simp split: if_splits)
qed

lemma review_manifest_coverage:
  "review_manifest w a s = Inr s' \<Longrightarrow> coverage_percent (result s') = coverage_percent (result s)"
  by (auto simp add: review_manifest_def split: sum.splits if_splits dest: required_loop_coverage)

lemma review_strings_coverage:
  "review_strings w a s = Inr s' \<Longrightarrow> coverage_percent (result s') = coverage_percent (result s)"
  by (auto simp add: review_strings_def split: sum.splits if_splits)

lemma review_loop_coverage:
  "review_loop w files s = Inr s' \<Longrightarrow> coverage_percent (result s') = coverage_percent (result s)"
proof (induction files arbitrary: s)
  case Nil
  then show ?case by simp
next
  case (Cons a files)
  show ?case
  proof (cases "suffix a = ''.py''")
    case True
    with Cons.prems have "review_loop w files (review_python_file w a s) = Inr s'" by simp
    from Cons.IH [OF this] show ?thesis by simp
  next
    case py: False
    show ?thesis
    proof (cases "name a = ''manifest.json''")
      case True
      with py Cons.prems obtain s1 where s1: "review_manifest w a s = Inr s1"
        "review_loop w files s1 = Inr s'"
        by (cases "review_manifest w a s") simp_all
      from Cons.IH [OF s1(2)] review_manifest_coverage [OF s1(1)] show ?thesis by simp
    next
      case mf: False
      show ?thesis
      proof (cases "name a = ''strings.json''")
        case True
        with py mf Cons.prems obtain s1 where s1: "review_strings w a s = Inr s1"
          "review_loop w files s1 = Inr s'"
          by (cases "review_strings w a s") simp_all
        from Cons.IH [OF s1(2)] review_strings_coverage [OF s1(1)] show ?thesis by simp
      next
        case False
        with py mf Cons.prems have "review_loop w files s = Inr s'" by simp
        from Cons.IH [OF this] show ?thesis .
      qed
    qed
  qed
qed

lemma run_linter_coverage:
  "run_linter w s = Inr s' \<Longrightarrow> coverage_percent (result s') = coverage_percent (result s)"
  by (auto simp add: run_linter_def split: sum.splits if_splits)

lemma run_type_checker_coverage:
  "run_type_checker w s = Inr s' \<Longrightarrow> coverage_percent (result s') = coverage_percent (result s)"
  by (auto simp add: run_type_checker_def split: sum.splits if_splits)

lemma check_test_coverage_no_report:
  "\<not> coverage_file_exists w \<Longrightarrow>
   result (check_test_coverage w s) = result s"
  by (simp add: check_test_coverage_def split: sum.splits)

lemma review_files_before_tier:
  assumes "review_files w files s = Inr s'" and "\<not> coverage_file_exists w"
  shows "\<exists>s2. s' = assess_quality_tier w s2 \<and> coverage_percent (result s2) = coverage_percent (result s)"
proof -
  let ?s0 = "s\<lparr>result := (result s)\<lparr>files_reviewed := length files\<rparr>\<rparr>"
  from assms(1) obtain s1 where s1: "review_loop w files ?s0 = Inr s1" "run_checks w s1 = Inr s'"
    by (cases "review_loop w files ?s0") (simp_all add: review_files_def)
  from s1(2) obtain s2 where s2: "run_linter w s1 = Inr s2"
    by (cases "run_linter w s1") (simp_all add: run_checks_def)
  from s1(2) s2 obtain s3 where s3: "run_type_checker w s2 = Inr s3"
    by (cases "run_type_checker w s2") (simp_all add: run_checks_def)
  from s1(2) s2 s3 have fin: "s' = assess_quality_tier w (check_test_coverage w s3)"
    by (simp add: run_checks_def)
  have "coverage_percent (result (check_test_coverage w s3)) = coverage_percent (result s)"
    using review_loop_coverage [OF s1(1)] run_linter_coverage [OF s2]
      run_type_checker_coverage [OF s3] check_test_coverage_no_report [OF assms(2), of s3]
    by simp
  with fin show ?thesis by blast
qed

text \<open>
  Claim C10. When pytest has run and the coverage report does not exist,
  \<^verbatim>\<open>_check_test_coverage\<close> changes nothing (no issue, no positive note, no diagnostic),
  and whatever pytest did the result is unchanged. No other step of \<^verbatim>\<open>review_files\<close>
  writes \<^verbatim>\<open>coverage_percent\<close>, so a run of a new reviewer that returns without a report
  ends with the initial 0.0, and if it ends with no blocking issue its tier is "Bronze
  (needs testing)".
\<close>

theorem unmeasured_coverage:
  "(subprocess_run w (pytest_call (root_path self)) = Inr res \<and> \<not> coverage_file_exists w
      \<longrightarrow> check_test_coverage w self = self)
   \<and> (\<not> coverage_file_exists w
      \<longrightarrow> result (check_test_coverage w self) = result self)
   \<and> coverage_percent (result (new_CodeReviewer rp)) = Finite 0
   \<and> (review_files w files (new_CodeReviewer rp) = Inr s' \<and> \<not> coverage_file_exists w
      \<longrightarrow> coverage_percent (result s') = Finite 0
          \<and> (\<not> has_blocking_issues (result s')
               \<longrightarrow> quality_tier (result s') = ''Bronze (needs testing)''))"
proof -
  have a: "check_test_coverage w self = self"
    if "subprocess_run w (pytest_call (root_path self)) = Inr res" "\<not> coverage_file_exists w"
    using that by (simp add: check_test_coverage_def)
  have z: "coverage_percent (result (new_CodeReviewer rp)) = Finite 0"
    by (simp add: new_CodeReviewer_def new_ReviewResult_def)
  have c: "coverage_percent (result s') = Finite 0
          \<and> (\<not> has_blocking_issues (result s')
               \<longrightarrow> quality_tier (result s') = ''Bronze (needs testing)'')"
    if r: "review_files w files (new_CodeReviewer rp) = Inr s'" and n: "\<not> coverage_file_exists w"
  proof -
    from review_files_before_tier [OF r n] z obtain s2
      where s2: "s' = assess_quality_tier w s2" "coverage_percent (result s2) = Finite 0"
      by auto
    show ?thesis
      unfolding s2(1) using s2(2)
      by (simp add: assess_quality_tier_def Let_def has_blocking_issues_def)
  qed
  show ?thesis
    using a c z check_test_coverage_no_report [of w self] by blast
qed

theorem unmeasured_coverage_witness:
  "check_test_coverage (tool_world 0 '''') (new_CodeReviewer ''.'') = new_CodeReviewer ''.''
   \<and> (\<exists>s'. review_files (tool_world 0 '''') [] (new_CodeReviewer ''.'') = Inr s'
          \<and> blocking (result s') = []
          \<and> coverage_percent (result s') = Finite 0
          \<and> quality_tier (result s') = ''Bronze (needs testing)'')"
proof -
  let ?w = "tool_world 0 ''''"
  let ?s = "new_CodeReviewer ''.''"
  have r: "subprocess_run ?w (pytest_call (root_path ?s)) = Inr \<lparr>returncode = 0, stdout = ''''\<rparr>"
    by (simp add: tool_world_def)
  have n: "\<not> coverage_file_exists ?w"
    by (simp add: tool_world_def quiet_world_def)
  have ex: "\<exists>s'. review_files ?w [] ?s = Inr s' \<and> blocking (result s') = []"
    by (simp add: review_files_def run_checks_def run_linter_def run_type_checker_def
        check_test_coverage_def assess_quality_tier_def tool_world_def quiet_world_def
        new_CodeReviewer_def new_ReviewResult_def Let_def)
  then obtain s' where s': "review_files ?w [] ?s = Inr s'" "blocking (result s') = []"
    by blast
  note t = unmeasured_coverage [of ?w ?s "\<lparr>returncode = 0, stdout = ''''\<rparr>" "''.''" "[]" s']
  from t r n have a: "check_test_coverage ?w ?s = ?s" by blast
  from t s'(1) n have b: "coverage_percent (result s') = Finite 0
          \<and> (\<not> has_blocking_issues (result s')
               \<longrightarrow> quality_tier (result s') = ''Bronze (needs testing)'')"
    by blast
  from s'(2) have "\<not> has_blocking_issues (result s')" by (simp add: has_blocking_issues_def)
  with a b s' show ?thesis by blast
qed

section \<open>Timeouts and absent tools\<close>

text \<open>
  Claim C3, as stated, fails: none of the three calls of \<^verbatim>\<open>subprocess.run\<close> gives a
  timeout, so none is bounded; and the handlers of \<^verbatim>\<open>_run_linter\<close> and
  \<^verbatim>\<open>_run_type_checker\<close> name \<^verbatim>\<open>FileNotFoundError\<close> alone, so an expiry raised by
  \<^verbatim>\<open>subprocess.run\<close> would leave them and end the run, where a missing executable is
  skipped with a diagnostic.
\<close>

theorem no_timeout_and_expiry_aborts:
  "timeout (ruff_call ''.'') = None
   \<and> timeout (mypy_call ''.'') = None
   \<and> timeout (pytest_call ''.'') = None
   \<and> run_linter expiring_world (new_CodeReviewer ''.'')
       = Inl (Exn TimeoutExpired ''Command timed out'')
   \<and> run_type_checker expiring_world (new_CodeReviewer ''.'')
       = Inl (Exn TimeoutExpired ''Command timed out'')
   \<and> run_checks expiring_world (new_CodeReviewer ''.'')
       = Inl (Exn TimeoutExpired ''Command timed out'')
   \<and> run_linter quiet_world (new_CodeReviewer ''.'')
       = Inr (print_stderr ''Warning: Ruff not found, skipping lint check'' (new_CodeReviewer ''.''))"
  by (simp add: ruff_call_def mypy_call_def pytest_call_def run_linter_def run_type_checker_def
      run_checks_def expiring_world_def quiet_world_def)

text \<open>
  Claim C3, amended. Every external checker is invoked with no timeout. When the
  executable is absent (\<^verbatim>\<open>FileNotFoundError\<close>), the adapter returns with the result
  unchanged, so with no issue of any severity and no positive note, and with one more line
  on \<^verbatim>\<open>sys.stderr\<close>; when all three are absent the run goes on to the tier. The coverage
  adapter does the same for every exception; the lint and type-check adapters let every
  other exception leave.
\<close>

theorem absent_tool_is_skipped:
  "timeout (ruff_call rp) = None
   \<and> timeout (mypy_call rp) = None
   \<and> timeout (pytest_call rp) = None
   \<and> (subprocess_run w (ruff_call (root_path self)) = Inl e \<and> exn_class_of e = FileNotFoundError
        \<longrightarrow> run_linter w self
              = Inr (print_stderr ''Warning: Ruff not found, skipping lint check'' self))
   \<and> (subprocess_run w (mypy_call (root_path self)) = Inl e \<and> exn_class_of e = FileNotFoundError
        \<longrightarrow> run_type_checker w self
              = Inr (print_stderr ''Warning: mypy not found, skipping type check'' self))
   \<and> (subprocess_run w (pytest_call (root_path self)) = Inl e
        \<longrightarrow> check_test_coverage w self = print_stderr (could_not_check e) self)
   \<and> result (print_stderr msg self) = result self
   \<and> sys_stderr (print_stderr msg self) = sys_stderr self @ [msg]
   \<and> (subprocess_run w (ruff_call (root_path self)) = Inl e \<and> exn_class_of e \<noteq> FileNotFoundError
        \<longrightarrow> run_linter w self = Inl e)
   \<and> (subprocess_run w (mypy_call (root_path self)) = Inl e \<and> exn_class_of e \<noteq> FileNotFoundError
        \<longrightarrow> run_type_checker w self = Inl e)
   \<and> ((\<forall>a. subprocess_run w a = Inl e) \<and> exn_class_of e = FileNotFoundError
        \<longrightarrow> run_checks w self
              = Inr (assess_quality_tier w
                  (print_stderr (could_not_check e)
                    (print_stderr ''Warning: mypy not found, skipping type check''
                      (print_stderr ''Warning: Ruff not found, skipping lint check'' self)))))"
  by (simp add: ruff_call_def mypy_call_def pytest_call_def run_linter_def run_type_checker_def
      run_checks_def check_test_coverage_def)

theorem absent_tool_is_skipped_witness:
  "run_checks quiet_world (new_CodeReviewer ''.'')
     = Inr (assess_quality_tier quiet_world
              (print_stderr (could_not_check (Exn FileNotFoundError ''[Errno 2] No such file or directory''))
                (print_stderr ''Warning: mypy not found, skipping type check''
                  (print_stderr ''Warning: Ruff not found, skipping lint check'' (new_CodeReviewer ''.'')))))
   \<and> total_issues (result (print_stderr (could_not_check (Exn FileNotFoundError ''[Errno 2] No such file or directory''))
                (print_stderr ''Warning: mypy not found, skipping type check''
                  (print_stderr ''Warning: Ruff not found, skipping lint check'' (new_CodeReviewer ''.''))))) = 0"
proof -
  let ?e = "Exn FileNotFoundError ''[Errno 2] No such file or directory''"
  have h: "\<forall>a. subprocess_run quiet_world a = Inl ?e" by (simp add: quiet_world_def)
  have c: "exn_class_of ?e = FileNotFoundError" by simp
  note t = absent_tool_is_skipped [of _ quiet_world "new_CodeReviewer ''.''" ?e]
  from t h c have a: "run_checks quiet_world (new_CodeReviewer ''.'')
     = Inr (assess_quality_tier quiet_world
              (print_stderr (could_not_check ?e)
                (print_stderr ''Warning: mypy not found, skipping type check''
                  (print_stderr ''Warning: Ruff not found, skipping lint check'' (new_CodeReviewer ''.'')))))"
    by blast
  have b: "total_issues (result (print_stderr (could_not_check ?e)
                (print_stderr ''Warning: mypy not found, skipping type check''
                  (print_stderr ''Warning: Ruff not found, skipping lint check'' (new_CodeReviewer ''.''))))) = 0"
    by (simp add: total_issues_def new_CodeReviewer_def new_ReviewResult_def)
  show ?thesis using a b by simp
qed

section \<open>The last rule of the table in a run\<close>

lemma check_node_blocking [simp]:
  "blocking (result (check_node f n s)) = blocking (result s)"
proof (cases n)
  case (Node k cs)
  then show ?thesis by (cases k) (simp_all add: Let_def emit_warning)
qed

lemma check_nodes_blocking [simp]:
  "blocking (result (check_nodes f ns s)) = blocking (result s)"
  by (induction ns arbitrary: s) simp_all

lemma review_python_file_keeps_blocking:
  "blocking (result s) \<noteq> [] \<Longrightarrow> blocking (result (review_python_file w a s)) \<noteq> []"
  by (simp add: review_python_file_def check_ast_patterns_def Let_def emit_blocking
      check_ha_patterns_blocking check_security_issues_blocking
      split: sum.splits parse_result.splits)

lemma required_loop_keeps_blocking:
  "required_loop f m flds s = Inr s' \<Longrightarrow> blocking (result s) \<noteq> [] \<Longrightarrow> blocking (result s') \<noteq> []"
proof (induction flds arbitrary: s)
  case Nil
  then show ?case by simp
next
  case (Cons fld flds)
  from Cons.prems(1) obtain present where p: "py_in fld m = Inr present"
    by (cases "py_in fld m") simp_all
  let ?s1 = "if \<not> present then emit (missing_field_issue f fld) s else s"
  from Cons.prems(1) p have run: "required_loop f m flds ?s1 = Inr s'" by simp
  from Cons.prems(2) have "blocking (result ?s1) \<noteq> []" by (simp add: emit_blocking)
  from Cons.IH [OF run this] show ?case .
qed

lemma review_manifest_keeps_blocking:
  "review_manifest w a s = Inr s' \<Longrightarrow> blocking (result s) \<noteq> [] \<Longrightarrow> blocking (result s') \<noteq> []"
  by (auto simp add: review_manifest_def emit_blocking emit_warning
      split: sum.splits if_splits dest: required_loop_keeps_blocking)

lemma review_strings_keeps_blocking:
  "review_strings w a s = Inr s' \<Longrightarrow> blocking (result s) \<noteq> [] \<Longrightarrow> blocking (result s') \<noteq> []"
  by (auto simp add: review_strings_def emit_blocking split: sum.splits if_splits)

lemma review_loop_keeps_blocking:
  "review_loop w files s = Inr s' \<Longrightarrow> blocking (result s) \<noteq> [] \<Longrightarrow> blocking (result s') \<noteq> []"
proof (induction files arbitrary: s)
  case Nil
  then show ?case by simp
next
  case (Cons a files)
  show ?case
  proof (cases "suffix a = ''.py''")
    case True
    with Cons.prems(1) have "review_loop w files (review_python_file w a s) = Inr s'" by simp
    from Cons.IH [OF this review_python_file_keeps_blocking [OF Cons.prems(2)]] show ?thesis .
  next
    case py: False
    show ?thesis
    proof (cases "name a = ''manifest.json''")
      case True
      with py Cons.prems(1) obtain s1 where s1: "review_manifest w a s = Inr s1"
        "review_loop w files s1 = Inr s'"
        by (cases "review_manifest w a s") simp_all
      from Cons.IH [OF s1(2) review_manifest_keeps_blocking [OF s1(1) Cons.prems(2)]]
      show ?thesis .
    next
      case mf: False
      show ?thesis
      proof (cases "name a = ''strings.json''")
        case True
        with py mf Cons.prems(1) obtain s1 where s1: "review_strings w a s = Inr s1"
          "review_loop w files s1 = Inr s'"
          by (cases "review_strings w a s") simp_all
        from Cons.IH [OF s1(2) review_strings_keeps_blocking [OF s1(1) Cons.prems(2)]]
        show ?thesis .
      next
        case False
        with py mf Cons.prems(1) have "review_loop w files s = Inr s'" by simp
        from Cons.IH [OF this Cons.prems(2)] show ?thesis .
      qed
    qed
  qed
qed

lemma run_linter_keeps_blocking:
  "run_linter w s = Inr s' \<Longrightarrow> blocking (result s) \<noteq> [] \<Longrightarrow> blocking (result s') \<noteq> []"
  by (auto simp add: run_linter_def emit_warning split: sum.splits if_splits)

lemma run_type_checker_keeps_blocking:
  "run_type_checker w s = Inr s' \<Longrightarrow> blocking (result s) \<noteq> [] \<Longrightarrow> blocking (result s') \<noteq> []"
  by (auto simp add: run_type_checker_def emit_warning split: sum.splits if_splits)

lemma check_test_coverage_nan_blocking:
  assumes "coverage_percent (result s) = NaN \<Longrightarrow> blocking (result s) \<noteq> []"
    and "coverage_percent (result (check_test_coverage w s)) = NaN"
  shows "blocking (result (check_test_coverage w s)) \<noteq> []"
proof (cases "subprocess_run w (pytest_call (root_path s))")
  case (Inl e)
  with assms show ?thesis by (simp add: check_test_coverage_def)
next
  case (Inr res)
  show ?thesis
  proof (cases "coverage_file_exists w")
    case False
    with Inr assms show ?thesis by (simp add: check_test_coverage_def)
  next
    case True
    show ?thesis
    proof (cases "percent_covered w")
      case (Inl e)
      with Inr True assms show ?thesis by (simp add: check_test_coverage_def)
    next
      case p: (Inr p)
      with Inr True assms(2) have "p = NaN"
        by (simp add: check_test_coverage_def Let_def split: if_splits)
      with Inr True p show ?thesis
        by (simp add: check_test_coverage_def Let_def emit_blocking)
    qed
  qed
qed

lemma review_files_before_coverage:
  assumes "review_files w files s = Inr s'"
  shows "\<exists>s3. s' = assess_quality_tier w (check_test_coverage w s3)
           \<and> coverage_percent (result s3) = coverage_percent (result s)
           \<and> (blocking (result s) \<noteq> [] \<longrightarrow> blocking (result s3) \<noteq> [])"
proof -
  let ?s0 = "s\<lparr>result := (result s)\<lparr>files_reviewed := length files\<rparr>\<rparr>"
  from assms obtain s1 where s1: "review_loop w files ?s0 = Inr s1" "run_checks w s1 = Inr s'"
    by (cases "review_loop w files ?s0") (simp_all add: review_files_def)
  from s1(2) obtain s2 where s2: "run_linter w s1 = Inr s2"
    by (cases "run_linter w s1") (simp_all add: run_checks_def)
  from s1(2) s2 obtain s3 where s3: "run_type_checker w s2 = Inr s3"
    by (cases "run_type_checker w s2") (simp_all add: run_checks_def)
  from s1(2) s2 s3 have fin: "s' = assess_quality_tier w (check_test_coverage w s3)"
    by (simp add: run_checks_def)
  have cov: "coverage_percent (result s3) = coverage_percent (result s)"
    using review_loop_coverage [OF s1(1)] run_linter_coverage [OF s2]
      run_type_checker_coverage [OF s3]
    by simp
  have blk: "blocking (result s3) \<noteq> []" if b: "blocking (result s) \<noteq> []"
  proof -
    from b have "blocking (result ?s0) \<noteq> []" by simp
    from review_loop_keeps_blocking [OF s1(1) this] have "blocking (result s1) \<noteq> []" .
    from run_linter_keeps_blocking [OF s2 this] have "blocking (result s2) \<noteq> []" .
    from run_type_checker_keeps_blocking [OF s3 this] show ?thesis .
  qed
  from fin cov blk show ?thesis by blast
qed

lemma assess_quality_tier_frame [simp]:
  "blocking (result (assess_quality_tier w s)) = blocking (result s)"
  "coverage_percent (result (assess_quality_tier w s)) = coverage_percent (result s)"
  by (simp_all add: assess_quality_tier_def Let_def)

lemma run_keeps_nan_blocked:
  assumes "coverage_percent (result self) = NaN \<longrightarrow> blocking (result self) \<noteq> []"
    and "review_files w files self = Inr s'"
  shows "quality_tier (result s') \<noteq> ''Bronze''
       \<and> (coverage_percent (result s') = NaN \<longrightarrow> blocking (result s') \<noteq> [])"
proof -
  from review_files_before_coverage [OF assms(2)] obtain s3
    where s3: "s' = assess_quality_tier w (check_test_coverage w s3)"
      "coverage_percent (result s3) = coverage_percent (result self)"
      "blocking (result self) \<noteq> [] \<longrightarrow> blocking (result s3) \<noteq> []"
    by blast
  from assms(1) s3(2,3) have inv3: "coverage_percent (result s3) = NaN \<Longrightarrow> blocking (result s3) \<noteq> []"
    by simp
  have inv: "coverage_percent (result (check_test_coverage w s3)) = NaN
      \<longrightarrow> blocking (result (check_test_coverage w s3)) \<noteq> []"
    using check_test_coverage_nan_blocking [of s3 w, OF inv3] by blast
  then have "quality_tier (result s') \<noteq> ''Bronze''"
    unfolding s3(1) plain_bronze_iff_nan by (auto simp add: has_blocking_issues_def)
  with inv show ?thesis unfolding s3(1) by simp
qed

text \<open>
  Claim C2. \<^verbatim>\<open>_assess_quality_tier\<close> is called only at the end of \<^verbatim>\<open>review_files\<close>, and
  there its result is never the plain "Bronze". The coverage percentage is written only by
  \<^verbatim>\<open>_check_test_coverage\<close>, which files a blocking issue whenever the value fails both of
  its tests, so a percentage that is not a number always comes with a blocking issue, and
  blocking issues are never removed: rule 1 fires. This holds for a new reviewer and is
  kept by every run, so also for a reviewer that is run again. For a percentage that is a
  number the last rule is not reached on any state: when rules 1 and 2 do not fire the
  percentage is at least 60, and rule 3 or rule 4 matches.
\<close>

theorem run_never_plain_bronze:
  "(review_files w files (new_CodeReviewer rp) = Inr s' \<longrightarrow> quality_tier (result s') \<noteq> ''Bronze'')
   \<and> ((coverage_percent (result self) = NaN \<longrightarrow> blocking (result self) \<noteq> [])
        \<and> review_files w files self = Inr s'
      \<longrightarrow> quality_tier (result s') \<noteq> ''Bronze''
          \<and> (coverage_percent (result s') = NaN \<longrightarrow> blocking (result s') \<noteq> []))
   \<and> (coverage_percent (result self) \<noteq> NaN
      \<longrightarrow> quality_tier (result (assess_quality_tier w self)) \<noteq> ''Bronze'')
   \<and> (coverage_percent (result self) \<noteq> NaN \<and> \<not> has_blocking_issues (result self)
        \<and> tests_exists w \<and> \<not> float_lt (coverage_percent (result self)) 60
      \<longrightarrow> float_ge (coverage_percent (result self)) 60)"
proof -
  have new: "coverage_percent (result (new_CodeReviewer rp)) = NaN
      \<longrightarrow> blocking (result (new_CodeReviewer rp)) \<noteq> []"
    by (simp add: new_CodeReviewer_def new_ReviewResult_def)
  have a: "quality_tier (result s') \<noteq> ''Bronze''"
    if "review_files w files (new_CodeReviewer rp) = Inr s'"
    using run_keeps_nan_blocked [OF new that] by simp
  have b: "quality_tier (result s') \<noteq> ''Bronze''
          \<and> (coverage_percent (result s') = NaN \<longrightarrow> blocking (result s') \<noteq> [])"
    if "coverage_percent (result self) = NaN \<longrightarrow> blocking (result self) \<noteq> []"
      "review_files w files self = Inr s'"
    using run_keeps_nan_blocked [OF that] .
  have c: "quality_tier (result (assess_quality_tier w self)) \<noteq> ''Bronze''"
    if "coverage_percent (result self) \<noteq> NaN"
    using that by (simp add: plain_bronze_iff_nan)
  have d: "float_ge (coverage_percent (result self)) 60"
    if "coverage_percent (result self) \<noteq> NaN" "\<not> float_lt (coverage_percent (result self)) 60"
    using that by (cases "coverage_percent (result self)") simp_all
  show ?thesis using a b c d by blast
qed

theorem run_never_plain_bronze_witness:
  "\<exists>s'. review_files (coverage_world NaN ''nan'') [] (new_CodeReviewer ''.'') = Inr s'
      \<and> coverage_percent (result s') = NaN
      \<and> quality_tier (result s') \<noteq> ''Bronze''
      \<and> quality_tier (result s') = ''Below Bronze''"
proof -
  let ?w = "coverage_world NaN ''nan''"
  have ex: "\<exists>s'. review_files ?w [] (new_CodeReviewer ''.'') = Inr s'
      \<and> coverage_percent (result s') = NaN \<and> quality_tier (result s') = ''Below Bronze''"
    by (simp add: review_files_def run_checks_def run_linter_def run_type_checker_def
        check_test_coverage_def assess_quality_tier_def coverage_world_def tool_world_def
        quiet_world_def new_CodeReviewer_def new_ReviewResult_def Let_def
        has_blocking_issues_def emit_blocking)
  then obtain s' where s': "review_files ?w [] (new_CodeReviewer ''.'') = Inr s'"
    "coverage_percent (result s') = NaN" "quality_tier (result s') = ''Below Bronze''"
    by blast
  from run_never_plain_bronze [of ?w "[]" "''.''" s'] s'(1)
  have "quality_tier (result s') \<noteq> ''Bronze''" by blast
  with s' show ?thesis by blast
qed

end
